theory Spec2Isabelle
  imports Complex_Main
begin

section \<open>Conventions of the embedding\<close>

text \<open>
  The TypeScript sources of the meal plan engine are embedded function by function.
  JavaScript numbers are modelled as exact reals (IEEE rounding is outside the model);
  the one non-real value that the modelled paths can produce, \<open>NaN\<close>, is kept as a
  value of its own where it can arise. \<open>Math.round x\<close> is \<open>\<lfloor>x + 1/2\<rfloor>\<close>.
  An exception is a value of type \<open>js_error\<close> on the left of a sum. The results of the
  external services (the recipe store, the scoring, assembly and review services) are
  inputs of the functions that consume them. Strings are ASCII.
\<close>

datatype js_error =
  Error string | TypeError string | ReferenceError string | SyntaxError string | RangeError string

datatype jsnum = Num real | NaN

definition Math_round :: "real \<Rightarrow> real" where
  "Math_round x = of_int \<lfloor>x + 1 / 2\<rfloor>"

text \<open>The answer \<open>{ data, error }\<close> of a store query.\<close>

record 'a query_result =
  qdata :: "'a option"
  qerror :: "string option"

section \<open>Data model (src/types/recipe.ts and the plan and blueprint types of src/unnamed)\<close>

datatype MealType = Breakfast | Lunch | Dinner | Snack | Dessert

record NutritionInfo =
  calories :: real
  protein :: real
  fat :: real
  carbohydrates :: real
  fiber :: "real option"

text \<open>An ingredient of the stored \<open>ingredients\<close> JSON; \<open>ing_name\<close> is its field
  \<open>name\<close>. The name and the unit are absent where the stored value has none.\<close>

record Ingredient =
  ing_name :: "string option"
  amount :: real
  unit :: "string option"

text \<open>A recipe row; \<open>recipe_ident\<close> is the field \<open>id\<close>.\<close>

record Recipe =
  recipe_ident :: string
  title :: string
  ingredients :: "Ingredient list option"
  nutrition_info :: "NutritionInfo option"
  servings :: real
  cuisine_type :: "string option"
  meal_type :: "MealType list"
  is_premium :: bool
  rating_average :: real

text \<open>A meal slot; \<open>slot_meal_type\<close> and \<open>slot_servings\<close> are its fields
  \<open>meal_type\<close> and \<open>servings\<close>.\<close>

record MealSlot =
  slot_meal_type :: string
  recipe_id :: string
  slot_servings :: "real option"
  completed :: bool

text \<open>A \<open>Date\<close> object: a time value in milliseconds, or the Invalid Date, whose time
  value is \<open>NaN\<close> (the value of \<open>new Date(str)\<close> for a string that is no date).\<close>

datatype JsDate = TimeValue int | InvalidDate

text \<open>A day of a plan; \<open>date\<close> is kept as the time stamp in milliseconds from which
  the source prints the ISO date.\<close>

record DayPlan =
  day :: string
  date :: int
  meals :: "MealSlot list"

record PlanData =
  days :: "DayPlan list"
  total_recipes :: nat
  unique_recipes :: nat
  variety_score :: nat

record MealPlan =
  plan_ident :: string
  user_id :: string
  week_theme :: string
  week_start_date :: JsDate
  plan_data :: PlanData
  generated_by :: string
  generation_id :: string

text \<open>The fields of \<open>GenerationContext\<close> that the controller reads.\<close>

record GenerationContext =
  ctx_user_id :: string
  ctx_generation_id :: string
  ctx_week_start_date :: JsDate

section \<open>Fallback plan (src/unnamed/part\_001, generateFallbackPlan)\<close>

definition fallback_days :: "string list" where
  "fallback_days = [''monday'', ''tuesday'', ''wednesday'']"

definition fallback_mealTypes :: "string list" where
  "fallback_mealTypes = [''breakfast'', ''lunch'', ''dinner'']"

text \<open>\<open>getTime()\<close>; \<open>None\<close> is \<open>NaN\<close>.\<close>

definition getTime :: "JsDate \<Rightarrow> int option" where
  "getTime d = (case d of TimeValue t \<Rightarrow> Some t | InvalidDate \<Rightarrow> None)"

text \<open>\<open>new Date(value)\<close> for a number: a time value beyond 8.64e15 milliseconds on
  either side, and \<open>NaN\<close>, give the Invalid Date.\<close>

definition maxTimeValue :: int where
  "maxTimeValue = 8640000000000000"

definition new_Date :: "int option \<Rightarrow> JsDate" where
  "new_Date tv =
     (case tv of
        None \<Rightarrow> InvalidDate
      | Some t \<Rightarrow> if \<bar>t\<bar> \<le> maxTimeValue then TimeValue t else InvalidDate)"

text \<open>\<open>toISOString()\<close> throws a RangeError on the Invalid Date; otherwise the printed
  date is kept as the time stamp.\<close>

definition toISOString :: "JsDate \<Rightarrow> js_error + int" where
  "toISOString d =
     (case d of
        InvalidDate \<Rightarrow> Inl (RangeError ''Invalid time value'')
      | TimeValue t \<Rightarrow> Inr t)"

text \<open>The results of the callbacks of \<open>Array.map\<close>, in order: the first exception
  leaves the map.\<close>

fun map_results :: "('e + 'a) list \<Rightarrow> 'e + 'a list" where
  "map_results [] = Inr []"
| "map_results (x # xs) =
     (case x of
        Inl e \<Rightarrow> Inl e
      | Inr v \<Rightarrow> (case map_results xs of Inl e \<Rightarrow> Inl e | Inr vs \<Rightarrow> Inr (v # vs)))"

text \<open>\<open>fallbackRecipes\<close> is the answer of the store to the fixed query (published, rating
  at least 4.0, at most 30 minutes, not spicy, best 15); \<open>uuid\<close> is the value of
  \<open>uuidv4()\<close>. The index is always in range, the pool being non-empty there.
  \<open>fallback_day\<close> is the callback of \<open>days.map\<close>.\<close>

definition fallback_day ::
  "Recipe list \<Rightarrow> GenerationContext \<Rightarrow> nat \<times> string \<Rightarrow> js_error + DayPlan" where
  "fallback_day fallbackRecipes context =
     (\<lambda>(dayIndex, d).
        case toISOString
               (new_Date (map_option (\<lambda>t. t + int dayIndex * 24 * 60 * 60 * 1000)
                            (getTime (ctx_week_start_date context)))) of
          Inl e \<Rightarrow> Inl e
        | Inr isoDate \<Rightarrow>
            Inr \<lparr> day = d,
                  date = isoDate,
                  meals = map (\<lambda>(mealIndex, mealType).
                     (let recipeIndex = (dayIndex * 3 + mealIndex) mod length fallbackRecipes in
                      \<lparr> slot_meal_type = mealType,
                        recipe_id = recipe_ident (fallbackRecipes ! recipeIndex),
                        slot_servings = None,
                        completed = False \<rparr>))
                     (enumerate 0 fallback_mealTypes) \<rparr>)"

definition fallback_planData ::
  "Recipe list \<Rightarrow> GenerationContext \<Rightarrow> js_error + PlanData" where
  "fallback_planData fallbackRecipes context =
     (case map_results (map (fallback_day fallbackRecipes context) (enumerate 0 fallback_days)) of
        Inl e \<Rightarrow> Inl e
      | Inr ds \<Rightarrow>
          Inr \<lparr> days = ds,
                total_recipes = 9,
                unique_recipes = min 9 (length fallbackRecipes),
                variety_score = 60 \<rparr>)"

definition generateFallbackPlan ::
  "string \<Rightarrow> Recipe list query_result \<Rightarrow> GenerationContext \<Rightarrow> js_error + MealPlan" where
  "generateFallbackPlan uuid res context =
     (case (qerror res, qdata res) of
        (Some e, _) \<Rightarrow> Inl (Error ''Failed to fetch fallback recipes'')
      | (None, None) \<Rightarrow> Inl (Error ''Failed to fetch fallback recipes'')
      | (None, Some []) \<Rightarrow> Inl (Error ''Failed to fetch fallback recipes'')
      | (None, Some fallbackRecipes) \<Rightarrow>
          (case fallback_planData fallbackRecipes context of
             Inl e \<Rightarrow> Inl e
           | Inr planData \<Rightarrow>
               Inr \<lparr> plan_ident = uuid,
                     user_id = ctx_user_id context,
                     week_theme = ''Getting Started'',
                     week_start_date = ctx_week_start_date context,
                     plan_data = planData,
                     generated_by = ''fallback_system'',
                     generation_id = ctx_generation_id context \<rparr>))"

section \<open>Generation controller (src/unnamed/part\_001, generateMealPlanWithRetry)\<close>

text \<open>The usage counters that every stage result carries; a counter may be absent.\<close>

record StageUsage =
  claude_requests :: "nat option"
  tokens_used :: "nat option"
  cost_cents :: "nat option"

text \<open>\<open>x || 0\<close> on a counter.\<close>

definition or_zero :: "nat option \<Rightarrow> nat" where
  "or_zero x = (case x of None \<Rightarrow> 0 | Some n \<Rightarrow> n)"

text \<open>The results of the stages, as far as the controller reads them: of
  \<open>CandidateSelector.selectCandidates\<close>, \<open>NutritionCouncil.validateAndRefine\<close> and
  \<open>WowLayerAgent.enhancePlan\<close> (each catches its own exceptions and returns an object),
  and of \<open>saveMealPlan\<close> (which throws when the insert fails).\<close>

record Deviations =
  calories_deviation :: jsnum
  protein_deviation :: jsnum
  fat_deviation :: jsnum
  carbohydrates_deviation :: jsnum

record SelectResult = StageUsage +
  sel_success :: bool
  sel_error :: "string option"

record CouncilResult = StageUsage +
  cr_success :: bool
  cr_meal_plan :: "MealPlan option"
  cr_nutritional_accuracy :: "Deviations option"
  cr_error :: "string option"

record EnhanceResult = StageUsage +
  en_meal_plan :: "MealPlan option"

text \<open>The world of one generation request: the answer of every stage at every attempt
  index, the answer of the store to the fallback query, and the fresh plan id.\<close>

record World =
  w_selectCandidates :: "nat \<Rightarrow> SelectResult"
  w_validateAndRefine :: "nat \<Rightarrow> CouncilResult"
  w_enhancePlan :: "nat \<Rightarrow> EnhanceResult"
  w_saveMealPlan :: "nat \<Rightarrow> js_error + MealPlan"
  w_fallbackRecipes :: "Recipe list query_result"
  w_uuid :: string

record PlanGenerationError =
  stage :: string
  error_code :: string
  message :: string
  recoverable :: bool
  suggested_action :: string

record PlanGenerationResult =
  success :: bool
  meal_plan :: "MealPlan option"
  res_generation_id :: string
  generation_time_ms :: nat
  retry_count :: nat
  res_claude_requests :: nat
  claude_tokens_used :: nat
  claude_cost_cents :: nat
  nutritional_accuracy :: "Deviations option"
  error :: "PlanGenerationError option"
  used_fallback :: bool
  fallback_reason :: "string option"

text \<open>\<open>lastError\<close> is \<open>null\<close>, the \<open>error\<close> field of a failed validation (a string, or
  absent) or a caught exception.\<close>

datatype last_error = LE_null | LE_field "string option" | LE_caught js_error

text \<open>The local variables of generateMealPlanWithRetry.\<close>

record ControllerState =
  retryCount :: nat
  lastError :: last_error
  totalClaudeRequests :: nat
  totalTokensUsed :: nat
  totalCostCents :: nat

definition maxRetries :: nat where
  "maxRetries = 3"

definition initial_state :: ControllerState where
  "initial_state =
     \<lparr> retryCount = 0, lastError = LE_null, totalClaudeRequests = 0,
       totalTokensUsed = 0, totalCostCents = 0 \<rparr>"

text \<open>The \<open>message\<close> of an exception, and the text of \<open>${lastError?.message}\<close>: only a
  caught exception has a \<open>message\<close>; for \<open>null\<close> and for a string the template prints
  \<open>undefined\<close>.\<close>

fun error_message :: "js_error \<Rightarrow> string" where
  "error_message (Error m) = m"
| "error_message (TypeError m) = m"
| "error_message (SyntaxError m) = m"
| "error_message (RangeError m) = m"
| "error_message (ReferenceError x) = x @ '' is not defined''"

fun lastError_message :: "last_error \<Rightarrow> string" where
  "lastError_message (LE_caught e) = error_message e"
| "lastError_message _ = ''undefined''"

text \<open>The value of a number-valued identifier in the scope of the function body. The
  declarations in scope are the imports and top-level declarations of the module, the
  parameters \<open>supabase\<close>, \<open>context\<close>, \<open>preferences\<close> and the six locals; reading any other
  identifier throws a ReferenceError. The three result objects are written with the
  shorthand property \<open>retry_count\<close>, that is \<open>retry_count: retry_count\<close>.\<close>

definition scope_number :: "ControllerState \<Rightarrow> string \<Rightarrow> js_error + nat" where
  "scope_number st x =
     (if x = ''maxRetries'' then Inr maxRetries
      else if x = ''retryCount'' then Inr (retryCount st)
      else if x = ''totalClaudeRequests'' then Inr (totalClaudeRequests st)
      else if x = ''totalTokensUsed'' then Inr (totalTokensUsed st)
      else if x = ''totalCostCents'' then Inr (totalCostCents st)
      else Inl (ReferenceError x))"

definition add_usage :: "ControllerState \<Rightarrow> nat option \<Rightarrow> nat option \<Rightarrow> nat option \<Rightarrow> ControllerState" where
  "add_usage st r t c =
     st\<lparr> totalClaudeRequests := totalClaudeRequests st + or_zero r,
         totalTokensUsed := totalTokensUsed st + or_zero t,
         totalCostCents := totalCostCents st + or_zero c \<rparr>"

definition accepted_result ::
  "ControllerState \<Rightarrow> GenerationContext \<Rightarrow> MealPlan \<Rightarrow> Deviations option \<Rightarrow>
   js_error + PlanGenerationResult" where
  "accepted_result st context finalPlan accuracy =
     (case scope_number st ''retry_count'' of
        Inl e \<Rightarrow> Inl e
      | Inr rc \<Rightarrow>
          Inr \<lparr> success = True, meal_plan = Some finalPlan,
                res_generation_id = ctx_generation_id context, generation_time_ms = 0,
                retry_count = rc,
                res_claude_requests = totalClaudeRequests st,
                claude_tokens_used = totalTokensUsed st,
                claude_cost_cents = totalCostCents st,
                nutritional_accuracy = accuracy, error = None,
                used_fallback = False, fallback_reason = None \<rparr>)"

definition fallback_result ::
  "ControllerState \<Rightarrow> GenerationContext \<Rightarrow> MealPlan \<Rightarrow> js_error + PlanGenerationResult" where
  "fallback_result st context fallbackPlan =
     (case scope_number st ''retry_count'' of
        Inl e \<Rightarrow> Inl e
      | Inr rc \<Rightarrow>
          Inr \<lparr> success = True, meal_plan = Some fallbackPlan,
                res_generation_id = ctx_generation_id context, generation_time_ms = 0,
                retry_count = rc,
                res_claude_requests = totalClaudeRequests st,
                claude_tokens_used = totalTokensUsed st,
                claude_cost_cents = totalCostCents st,
                nutritional_accuracy = None, error = None,
                used_fallback = True,
                fallback_reason = Some (''Generation failed after 3 attempts: '' @
                                        lastError_message (lastError st)) \<rparr>)"

definition failure_result ::
  "ControllerState \<Rightarrow> GenerationContext \<Rightarrow> js_error \<Rightarrow> js_error + PlanGenerationResult" where
  "failure_result st context fallbackError =
     (case scope_number st ''retry_count'' of
        Inl e \<Rightarrow> Inl e
      | Inr rc \<Rightarrow>
          Inr \<lparr> success = False, meal_plan = None,
                res_generation_id = ctx_generation_id context, generation_time_ms = 0,
                retry_count = rc,
                res_claude_requests = totalClaudeRequests st,
                claude_tokens_used = totalTokensUsed st,
                claude_cost_cents = totalCostCents st,
                nutritional_accuracy = None,
                error = Some \<lparr> stage = ''fallback_generation'',
                               error_code = ''COMPLETE_FAILURE'',
                               message = ''All generation attempts failed. Last error: '' @
                                  lastError_message (lastError st) @ ''. Fallback error: '' @
                                  error_message fallbackError,
                               recoverable = True,
                               suggested_action = ''Please try again in a few minutes'' \<rparr>,
                used_fallback = False, fallback_reason = None \<rparr>)"

text \<open>How the body of \<open>try\<close> in the loop ends: with the \<open>return\<close> of a result, with an
  exception (caught by the \<open>catch\<close> of the loop), or past the \<open>else\<close> branch that records
  the failed validation.\<close>

datatype round_exit = Returned PlanGenerationResult | Thrown js_error | Fallthrough

definition try_round ::
  "World \<Rightarrow> GenerationContext \<Rightarrow> ControllerState \<Rightarrow> ControllerState \<times> round_exit" where
  "try_round w context st =
     (let candidatesResult = w_selectCandidates w (retryCount st) in
      if \<not> sel_success candidatesResult then
        (st, Thrown (Error (''Candidate selection failed: '' @
               (case sel_error candidatesResult of None \<Rightarrow> ''undefined'' | Some m \<Rightarrow> m))))
      else
        let st1 = add_usage st (claude_requests candidatesResult)
                    (tokens_used candidatesResult) (cost_cents candidatesResult);
            validationResult = w_validateAndRefine w (retryCount st);
            st2 = add_usage st1 (claude_requests validationResult)
                    (tokens_used validationResult) (cost_cents validationResult)
        in if cr_success validationResult then
             (let enhancedResult = w_enhancePlan w (retryCount st);
                  st3 = add_usage st2 (claude_requests enhancedResult)
                          (tokens_used enhancedResult) (cost_cents enhancedResult)
              in case w_saveMealPlan w (retryCount st) of
                   Inl e \<Rightarrow> (st3, Thrown e)
                 | Inr finalPlan \<Rightarrow>
                     (case accepted_result st3 context finalPlan
                             (cr_nutritional_accuracy validationResult) of
                        Inl e \<Rightarrow> (st3, Thrown e)
                      | Inr r \<Rightarrow> (st3, Returned r)))
           else (st2\<lparr> lastError := LE_field (cr_error validationResult) \<rparr>, Fallthrough))"

lemma retryCount_try_round [simp]: "retryCount (fst (try_round w context st)) = retryCount st"
  by (simp add: try_round_def add_usage_def Let_def split: sum.split)

lemma try_round_retryCount:
  "(st', ex) = try_round w c st \<Longrightarrow> retryCount st' = retryCount st"
  using retryCount_try_round [of w c st] by (cases "try_round w c st") simp

function retry_loop ::
  "World \<Rightarrow> GenerationContext \<Rightarrow> ControllerState \<Rightarrow> ControllerState \<times> PlanGenerationResult option" where
  "retry_loop w context st =
     (if retryCount st < maxRetries then
        (case try_round w context st of
           (st', Returned r) \<Rightarrow> (st', Some r)
         | (st', Thrown e) \<Rightarrow>
             retry_loop w context (st'\<lparr> lastError := LE_caught e, retryCount := retryCount st' + 1 \<rparr>)
         | (st', Fallthrough) \<Rightarrow>
             retry_loop w context (st'\<lparr> retryCount := retryCount st' + 1 \<rparr>))
      else (st, None))"
  by pat_completeness auto
termination
  by (relation "measure (\<lambda>(w, c, st). maxRetries - retryCount st)")
     (auto dest!: try_round_retryCount)

text \<open>After the loop: the fallback plan inside \<open>try\<close>, and the \<open>catch\<close> that builds the
  COMPLETE\_FAILURE result. An exception thrown while that last object is built leaves
  the function.\<close>

definition generateMealPlanWithRetry ::
  "World \<Rightarrow> GenerationContext \<Rightarrow> js_error + PlanGenerationResult" where
  "generateMealPlanWithRetry w context =
     (case retry_loop w context initial_state of
        (st, Some r) \<Rightarrow> Inr r
      | (st, None) \<Rightarrow>
          (case (case generateFallbackPlan (w_uuid w) (w_fallbackRecipes w) context of
                   Inl e \<Rightarrow> Inl e
                 | Inr fallbackPlan \<Rightarrow> fallback_result st context fallbackPlan) of
             Inr r \<Rightarrow> Inr r
           | Inl fallbackError \<Rightarrow> failure_result st context fallbackError))"

section \<open>JavaScript objects used as dictionaries\<close>

text \<open>An object literal \<open>{}\<close> and an object made by \<open>JSON.parse\<close> inherit from
  \<open>Object.prototype\<close>: reading \<open>obj[k]\<close> for a key that is not an own property finds the
  inherited member when \<open>k\<close> is one of these twelve names, and \<open>undefined\<close> otherwise.\<close>

definition object_prototype_keys :: "string list" where
  "object_prototype_keys =
     [''constructor'', ''__defineGetter__'', ''__defineSetter__'', ''hasOwnProperty'',
      ''__lookupGetter__'', ''__lookupSetter__'', ''isPrototypeOf'',
      ''propertyIsEnumerable'', ''toString'', ''valueOf'', ''__proto__'',
      ''toLocaleString'']"

text \<open>The match of the regular expression \<open>/\{[\s\S]*\}/\<close>: from the first opening brace
  to the last closing brace after it, if there is one.\<close>

definition regex_match_braces :: "string \<Rightarrow> string option" where
  "regex_match_braces response =
     (let from_open = dropWhile (\<lambda>ch. ch \<noteq> CHR ''{'') response;
          matched = rev (dropWhile (\<lambda>ch. ch \<noteq> CHR ''}'') (rev from_open))
      in if matched = [] then None else Some matched)"

section \<open>Candidate selector (class CandidateSelector, second part of src/agents/wow-layer.ts)\<close>

datatype Rating = love | meh | skip

record RecentRating =
  rr_recipe_id :: string
  rating :: Rating

record RecentSwap =
  original_recipe_id :: string
  replacement_recipe_id :: string

text \<open>The fields of \<open>UserBlueprint\<close> (with its \<open>intake\<close> and \<open>subscription_plan\<close>) and of
  \<open>GenerationPreferences\<close> that the selector reads.\<close>

record UserBlueprint =
  access_to_premium_content :: bool
  cultural_preferences :: "string list option"
  cooking_time_preference :: "real option"
  recent_ratings :: "RecentRating list option"
  recent_swaps :: "RecentSwap list option"

record GenerationPreferences =
  focus_macros :: "string list option"
  enforce_variety :: "bool option"

record ScoringCriteria =
  cuisine_match_weight :: real
  nutrition_match_weight :: real
  prep_time_weight :: real
  user_rating_weight :: real
  variety_weight :: real
  premium_bonus :: real
  recent_favorite_bonus :: real
  seasonal_bonus :: real

record RecipeCandidate =
  recipe :: Recipe
  base_score :: real
  ai_personalization_score :: real
  final_score :: real
  match_reasons :: "string list"
  penalty_reasons :: "string list"

text \<open>\<open>xs?.length\<close> as a condition.\<close>

definition has_length :: "'a list option \<Rightarrow> bool" where
  "has_length xs = (case xs of None \<Rightarrow> False | Some l \<Rightarrow> l \<noteq> [])"

definition buildScoringCriteria :: "UserBlueprint \<Rightarrow> GenerationPreferences \<Rightarrow> ScoringCriteria" where
  "buildScoringCriteria blueprint preferences =
     \<lparr> cuisine_match_weight = (if has_length (cultural_preferences blueprint) then 0.3 else 0.1),
       nutrition_match_weight = (if has_length (focus_macros preferences) then 0.4 else 0.2),
       prep_time_weight =
         (case cooking_time_preference blueprint of
            None \<Rightarrow> 0.1 | Some t \<Rightarrow> if t = 0 then 0.1 else 0.2),
       user_rating_weight = 0.2,
       variety_weight = (if enforce_variety preferences \<noteq> Some False then 0.15 else 0.05),
       premium_bonus = (if access_to_premium_content blueprint then 1.1 else 1.0),
       recent_favorite_bonus = 1.2,
       seasonal_bonus = 1.05 \<rparr>"

fun favorite_loop :: "RecentRating list \<Rightarrow> Recipe \<Rightarrow> real" where
  "favorite_loop [] r = 1.0"
| "favorite_loop (rt # rest) r =
     (if rr_recipe_id rt = recipe_ident r then 1.3 else favorite_loop rest r)"

definition getRecentFavoriteBonus :: "Recipe \<Rightarrow> UserBlueprint \<Rightarrow> real" where
  "getRecentFavoriteBonus r blueprint =
     (let recentLoves =
            (case recent_ratings blueprint of
               None \<Rightarrow> [] | Some rs \<Rightarrow> filter (\<lambda>rt. rating rt = love) rs)
      in favorite_loop recentLoves r)"

fun swap_loop :: "RecentSwap list \<Rightarrow> Recipe \<Rightarrow> real" where
  "swap_loop [] r = 1.0"
| "swap_loop (sw # rest) r =
     (if original_recipe_id sw = recipe_ident r then 0.7 else swap_loop rest r)"

definition getSwapPenalty :: "Recipe \<Rightarrow> UserBlueprint \<Rightarrow> real" where
  "getSwapPenalty r blueprint =
     (let recentSwaps = (case recent_swaps blueprint of None \<Rightarrow> [] | Some ss \<Rightarrow> ss)
      in swap_loop recentSwaps r)"

definition calculateFinalScore ::
  "RecipeCandidate \<Rightarrow> ScoringCriteria \<Rightarrow> UserBlueprint \<Rightarrow> real" where
  "calculateFinalScore candidate criteria blueprint =
     (let score0 = 0;
          score1 = score0 + base_score candidate * 0.3;
          score2 = score1 + ai_personalization_score candidate * 0.4;
          recentFavoriteBonus = getRecentFavoriteBonus (recipe candidate) blueprint;
          score3 = score2 * recentFavoriteBonus;
          score4 = (if is_premium (recipe candidate) \<and> access_to_premium_content blueprint
                    then score3 * premium_bonus criteria else score3);
          swapPenalty = getSwapPenalty (recipe candidate) blueprint;
          score5 = score4 * swapPenalty
      in min (max score5 0) 100)"

subsection \<open>selectDiverseSet\<close>

text \<open>A value found in \<open>cuisineCount\<close>: a number, or something that is not one (an
  inherited member of the object, or the string that adding 1 to it makes). Such a value
  is truthy, compares false with \<open>>=\<close>, and stays a non-number when 1 is added.\<close>

datatype counter = Count nat | NotANumber

text \<open>\<open>cuisineCount[k] || 0\<close>, over the own properties of the object.\<close>

definition count_or_zero :: "(string \<Rightarrow> counter option) \<Rightarrow> string \<Rightarrow> counter" where
  "count_or_zero obj k =
     (case obj k of
        Some v \<Rightarrow> v
      | None \<Rightarrow> if k \<in> set object_prototype_keys then NotANumber else Count 0)"

fun counter_ge :: "counter \<Rightarrow> nat \<Rightarrow> bool" where
  "counter_ge (Count n) limit = (n \<ge> limit)"
| "counter_ge NotANumber limit = False"

fun counter_plus_one :: "counter \<Rightarrow> counter" where
  "counter_plus_one (Count n) = Count (n + 1)"
| "counter_plus_one NotANumber = NotANumber"

definition targetCount :: nat where
  "targetCount = 30"

text \<open>\<open>Math.ceil(targetCount / 5)\<close> and \<open>Math.ceil(targetCount / 3)\<close>.\<close>

definition cuisineLimit :: nat where
  "cuisineLimit = nat \<lceil>real targetCount / 5\<rceil>"

definition mealTypeLimit :: nat where
  "mealTypeLimit = nat \<lceil>real targetCount / 3\<rceil>"

text \<open>The state of the loop. The keys of \<open>mealTypeCount\<close> are the five meal types, an
  absent key counting as 0. The third dictionary of the source, \<open>difficultyCount\<close>, is
  written and never read; it is left out.\<close>

record DiverseState =
  selected :: "RecipeCandidate list"
  cuisineCount :: "string \<Rightarrow> counter option"
  mealTypeCount :: "MealType \<Rightarrow> nat"

definition diverse_init :: DiverseState where
  "diverse_init = \<lparr> selected = [], cuisineCount = (\<lambda>_. None), mealTypeCount = (\<lambda>_. 0) \<rparr>"

definition skipForDiversity :: "DiverseState \<Rightarrow> RecipeCandidate \<Rightarrow> bool" where
  "skipForDiversity st candidate =
     ((case cuisine_type (recipe candidate) of
         None \<Rightarrow> False
       | Some c \<Rightarrow> c \<noteq> [] \<and> counter_ge (count_or_zero (cuisineCount st) c) cuisineLimit)
      \<or> list_ex (\<lambda>mealType. mealTypeCount st mealType \<ge> mealTypeLimit)
           (meal_type (recipe candidate)))"

definition diverse_accept :: "DiverseState \<Rightarrow> RecipeCandidate \<Rightarrow> DiverseState" where
  "diverse_accept st candidate =
     \<lparr> selected = selected st @ [candidate],
       cuisineCount =
         (case cuisine_type (recipe candidate) of
            None \<Rightarrow> cuisineCount st
          | Some c \<Rightarrow>
              if c = [] then cuisineCount st
              else (cuisineCount st)(c \<mapsto> counter_plus_one (count_or_zero (cuisineCount st) c))),
       mealTypeCount =
         fold (\<lambda>mealType cnt. cnt(mealType := cnt mealType + 1))
           (meal_type (recipe candidate)) (mealTypeCount st) \<rparr>"

fun diverse_loop :: "RecipeCandidate list \<Rightarrow> DiverseState \<Rightarrow> DiverseState" where
  "diverse_loop [] st = st"
| "diverse_loop (candidate # rest) st =
     (if length (selected st) \<ge> targetCount then st
      else if skipForDiversity st candidate \<and> length (selected st) > 15
        then diverse_loop rest st
        else diverse_loop rest (diverse_accept st candidate))"

definition selectDiverseSet :: "RecipeCandidate list \<Rightarrow> RecipeCandidate list" where
  "selectDiverseSet candidates = selected (diverse_loop candidates diverse_init)"

subsection \<open>rankAndSelectFinalCandidates\<close>

text \<open>\<open>Array.prototype.sort\<close> is stable; with the comparator
  \<open>b.final_score - a.final_score\<close> it sorts by falling final score.\<close>

definition rankAndSelectFinalCandidates ::
  "RecipeCandidate list \<Rightarrow> UserBlueprint \<Rightarrow> GenerationPreferences \<Rightarrow> RecipeCandidate list" where
  "rankAndSelectFinalCandidates scoredCandidates blueprint preferences =
     (let criteria = buildScoringCriteria blueprint preferences;
          rescored = map (\<lambda>candidate.
                        candidate\<lparr> final_score := calculateFinalScore candidate criteria blueprint \<rparr>)
                      scoredCandidates;
          sorted_candidates = sort_key (\<lambda>candidate. - final_score candidate) rescored
      in selectDiverseSet sorted_candidates)"

subsection \<open>parseAIScoringResponse\<close>

text \<open>The payload of the scoring service after \<open>JSON.parse\<close>, at the shape its prompt asks
  for: an object whose \<open>recipe_scores\<close>, when present, maps recipe ids to entries, each
  field of an entry being optional. \<open>JSON.parse\<close> itself is a parameter: it throws or
  returns the payload.\<close>

record ScoreData =
  score :: "real option"
  sd_match_reasons :: "string list option"
  sd_penalty_reasons :: "string list option"

record ScoringPayload =
  recipe_scores :: "(string \<Rightarrow> ScoreData option) option"

record ParseResult =
  pr_success :: bool
  pr_candidates :: "RecipeCandidate list option"
  pr_error :: "string option"

definition parse_failure :: "string \<Rightarrow> ParseResult" where
  "parse_failure msg =
     \<lparr> pr_success = False, pr_candidates = None,
       pr_error = Some (''Failed to parse AI response: '' @ msg) \<rparr>"

definition unscored_candidate :: "Recipe \<Rightarrow> RecipeCandidate" where
  "unscored_candidate r =
     \<lparr> recipe = r, base_score = 50, ai_personalization_score = 50, final_score = 50,
       match_reasons = [], penalty_reasons = [''No AI score available''] \<rparr>"

text \<open>\<open>scoreData.score || 50\<close> and \<open>scoreData.match_reasons || []\<close>.\<close>

definition scored_candidate :: "Recipe \<Rightarrow> ScoreData \<Rightarrow> RecipeCandidate" where
  "scored_candidate r scoreData =
     \<lparr> recipe = r, base_score = rating_average r * 20,
       ai_personalization_score =
         (case score scoreData of None \<Rightarrow> 50 | Some s \<Rightarrow> if s = 0 then 50 else s),
       final_score = 0,
       match_reasons = (case sd_match_reasons scoreData of None \<Rightarrow> [] | Some l \<Rightarrow> l),
       penalty_reasons = (case sd_penalty_reasons scoreData of None \<Rightarrow> [] | Some l \<Rightarrow> l) \<rparr>"

text \<open>For an id that is an inherited name, \<open>recipeScores[recipe.id]\<close> finds the inherited
  member: an entry without fields.\<close>

definition candidate_of ::
  "(string \<Rightarrow> ScoreData option) \<Rightarrow> Recipe \<Rightarrow> RecipeCandidate" where
  "candidate_of recipeScores r =
     (case recipeScores (recipe_ident r) of
        Some scoreData \<Rightarrow> scored_candidate r scoreData
      | None \<Rightarrow>
          if recipe_ident r \<in> set object_prototype_keys
          then scored_candidate r
                 \<lparr> score = None, sd_match_reasons = None, sd_penalty_reasons = None \<rparr>
          else unscored_candidate r)"

definition parseAIScoringResponse ::
  "(string \<Rightarrow> js_error + ScoringPayload) \<Rightarrow> string \<Rightarrow> Recipe list \<Rightarrow> ParseResult" where
  "parseAIScoringResponse JSON_parse aiResponse recipes =
     (case regex_match_braces aiResponse of
        None \<Rightarrow> parse_failure ''No JSON found in AI response''
      | Some jsonMatch \<Rightarrow>
          (case JSON_parse jsonMatch of
             Inl e \<Rightarrow> parse_failure (error_message e)
           | Inr parsedResponse \<Rightarrow>
               (case recipe_scores parsedResponse of
                  None \<Rightarrow> parse_failure ''No recipe_scores found in AI response''
                | Some recipeScores \<Rightarrow>
                    \<lparr> pr_success = True,
                      pr_candidates = Some (map (candidate_of recipeScores) recipes),
                      pr_error = None \<rparr>)))"

subsection \<open>Counting a selection\<close>

text \<open>How many candidates of a list have the cuisine \<open>c\<close>, and how often the meal type
  \<open>m\<close> is listed by the recipes of a list.\<close>

definition cuisine_occurrences :: "string \<Rightarrow> RecipeCandidate list \<Rightarrow> nat" where
  "cuisine_occurrences c cs = length (filter (\<lambda>x. cuisine_type (recipe x) = Some c) cs)"

definition mealType_occurrences :: "MealType \<Rightarrow> RecipeCandidate list \<Rightarrow> nat" where
  "mealType_occurrences m cs = sum_list (map (\<lambda>x. count_list (meal_type (recipe x)) m) cs)"

text \<open>The candidate at position \<open>i\<close> of a selection was within the caps when it was
  accepted: fewer than \<open>cuisineLimit\<close> earlier candidates of its cuisine (for a cuisine
  name that is not an inherited member name), and for each of its meal types fewer than
  \<open>mealTypeLimit\<close> earlier listings.\<close>

definition within_caps_at :: "RecipeCandidate list \<Rightarrow> nat \<Rightarrow> bool" where
  "within_caps_at sel i =
     ((case cuisine_type (recipe (sel ! i)) of
         None \<Rightarrow> True
       | Some c \<Rightarrow> c = [] \<or> c \<in> set object_prototype_keys \<or>
                  cuisine_occurrences c (take i sel) < cuisineLimit)
      \<and> list_all (\<lambda>m. mealType_occurrences m (take i sel) < mealTypeLimit)
           (meal_type (recipe (sel ! i))))"

text \<open>The counters agree with the selection made so far.\<close>

definition counters_agree :: "DiverseState \<Rightarrow> bool" where
  "counters_agree st =
     ((\<forall>c. c \<noteq> [] \<and> c \<notin> set object_prototype_keys \<longrightarrow>
           count_or_zero (cuisineCount st) c = Count (cuisine_occurrences c (selected st)))
      \<and> (\<forall>m. mealTypeCount st m = mealType_occurrences m (selected st)))"

text \<open>The invariant of the loop: the counters agree with the selection, and every
  candidate accepted at a position from 16 on was within the caps.\<close>

definition loop_invariant :: "DiverseState \<Rightarrow> bool" where
  "loop_invariant st =
     (counters_agree st \<and> (\<forall>i. 16 \<le> i \<and> i < length (selected st) \<longrightarrow>
                                within_caps_at (selected st) i))"

section \<open>Unit conversion (nutrition-validator/index.ts and src/agents/nutrition-council.ts)\<close>

text \<open>\<open>String.prototype.toLowerCase\<close> on ASCII strings.\<close>

definition lower_char :: "char \<Rightarrow> char" where
  "lower_char ch =
     (case map_of (zip ''ABCDEFGHIJKLMNOPQRSTUVWXYZ'' ''abcdefghijklmnopqrstuvwxyz'') ch of
        Some l \<Rightarrow> l
      | None \<Rightarrow> ch)"

definition toLowerCase :: "string \<Rightarrow> string" where
  "toLowerCase s = map lower_char s"

text \<open>Reading \<open>obj[k]\<close> on an object literal with the given own properties.\<close>

datatype 'v js_member = Own 'v | Inherited | Undefined

definition js_get :: "(string \<times> 'v) list \<Rightarrow> string \<Rightarrow> 'v js_member" where
  "js_get obj k =
     (case map_of obj k of
        Some v \<Rightarrow> Own v
      | None \<Rightarrow> if k \<in> set object_prototype_keys then Inherited else Undefined)"

text \<open>The table of \<open>NutritionValidator.convertToGrams\<close>.\<close>

definition conversions_validator :: "(string \<times> real) list" where
  "conversions_validator =
     [(''g'', 1), (''gram'', 1), (''grams'', 1),
      (''kg'', 1000), (''kilogram'', 1000),
      (''oz'', 28.35), (''ounce'', 28.35), (''ounces'', 28.35),
      (''lb'', 453.59), (''pound'', 453.59), (''pounds'', 453.59),
      (''cup'', 240), (''cups'', 240),
      (''tbsp'', 15), (''tablespoon'', 15), (''tablespoons'', 15),
      (''tsp'', 5), (''teaspoon'', 5), (''teaspoons'', 5),
      (''ml'', 1), (''milliliter'', 1), (''milliliters'', 1),
      (''l'', 1000), (''liter'', 1000), (''liters'', 1000)]"

text \<open>The table of \<open>NutritionCouncil.convertToStandardAmount\<close> (``would need more
  comprehensive conversion table'', says its comment).\<close>

definition conversions_council :: "(string \<times> real) list" where
  "conversions_council =
     [(''g'', 1), (''gram'', 1), (''grams'', 1),
      (''kg'', 1000),
      (''oz'', 28.35),
      (''pound'', 453.59), (''lb'', 453.59),
      (''cup'', 240),
      (''tbsp'', 15),
      (''tsp'', 5)]"

text \<open>\<open>amount * (conversions[unit.toLowerCase()] || 100)\<close>. An inherited member is an
  object: it is truthy, and the product of a number and an object is \<open>NaN\<close>.\<close>

definition convert_with :: "(string \<times> real) list \<Rightarrow> real \<Rightarrow> string \<Rightarrow> jsnum" where
  "convert_with conversions amt u =
     (case js_get conversions (toLowerCase u) of
        Own factor \<Rightarrow> Num (amt * (if factor = 0 then 100 else factor))
      | Inherited \<Rightarrow> NaN
      | Undefined \<Rightarrow> Num (amt * 100))"

definition convertToGrams :: "real \<Rightarrow> string \<Rightarrow> jsnum" where
  "convertToGrams amt u = convert_with conversions_validator amt u"

definition convertToStandardAmount :: "real \<Rightarrow> string \<Rightarrow> jsnum" where
  "convertToStandardAmount amt u = convert_with conversions_council amt u"

section \<open>Nutrition validator (nutrition-validator/index.ts)\<close>

text \<open>\<open>s.includes(sub)\<close>.\<close>

fun str_includes :: "string \<Rightarrow> string \<Rightarrow> bool" where
  "str_includes [] sub = (sub = [])"
| "str_includes (ch # rest) sub = (take (length sub) (ch # rest) = sub \<or> str_includes rest sub)"

text \<open>\<open>x || 0\<close> on an optional number, and \<open>x || 1\<close> on a number.\<close>

definition num_or_zero :: "real option \<Rightarrow> real" where
  "num_or_zero x = (case x of None \<Rightarrow> 0 | Some v \<Rightarrow> v)"

definition or_one :: "real \<Rightarrow> real" where
  "or_one x = (if x = 0 then 1 else x)"

record USDANutritionData =
  usda_calories :: "real option"
  usda_protein :: "real option"
  usda_fat :: "real option"
  usda_carbohydrates :: "real option"
  usda_fiber :: "real option"

datatype calc_method = spoonacular | usda_calculated | estimated

record MealNutrition =
  mn_recipe_id :: string
  mn_recipe_title :: string
  mn_nutrition :: NutritionInfo
  calculation_method :: calc_method

text \<open>The store as the nutrition code sees it: the answer of \<open>recipes\<close> to the query for
  one id (an exception when the call itself fails), and the best match of
  \<open>search_nutrition_data\<close> for an ingredient name (absent when the call fails or finds
  nothing).\<close>

record Store =
  recipe_by_id :: "string \<Rightarrow> js_error + Recipe query_result"
  lookupUSDANutrition :: "string \<Rightarrow> USDANutritionData option"

definition isReliableNutrition_validator :: "NutritionInfo \<Rightarrow> bool" where
  "isReliableNutrition_validator nutrition =
     (calories nutrition > 0 \<and> protein nutrition \<ge> 0 \<and> fat nutrition \<ge> 0 \<and>
      carbohydrates nutrition \<ge> 0)"

definition minorIngredients_validator :: "string list" where
  "minorIngredients_validator =
     [''salt'', ''pepper'', ''water'', ''vanilla'', ''baking powder'', ''garlic powder'',
      ''onion powder'', ''paprika'', ''oregano'', ''basil'', ''thyme'', ''rosemary'']"

definition isMinorIngredient_validator :: "string \<Rightarrow> bool" where
  "isMinorIngredient_validator name =
     list_ex (\<lambda>minor. str_includes (toLowerCase name) minor) minorIngredients_validator"

text \<open>The filter of the main ingredients. \<open>ing.name.toLowerCase()\<close> throws a TypeError on
  an ingredient without a name, once its amount is positive.\<close>

fun mainIngredients_validator :: "Ingredient list \<Rightarrow> js_error + Ingredient list" where
  "mainIngredients_validator [] = Inr []"
| "mainIngredients_validator (ing # rest) =
     (if amount ing > 0 then
        (case ing_name ing of
           None \<Rightarrow> Inl (TypeError ''Cannot read properties of undefined (reading toLowerCase)'')
         | Some name \<Rightarrow>
             (case mainIngredients_validator rest of
                Inl e \<Rightarrow> Inl e
              | Inr l \<Rightarrow> Inr (if isMinorIngredient_validator name then l else ing # l)))
      else mainIngredients_validator rest)"

record MacroTotals =
  totalCalories :: real
  totalProtein :: real
  totalFat :: real
  totalCarbs :: real
  totalFiber :: real

definition zero_totals :: MacroTotals where
  "zero_totals = \<lparr> totalCalories = 0, totalProtein = 0, totalFat = 0, totalCarbs = 0,
                    totalFiber = 0 \<rparr>"

definition add_usda :: "MacroTotals \<Rightarrow> USDANutritionData \<Rightarrow> real \<Rightarrow> MacroTotals" where
  "add_usda t usdaData multiplier =
     \<lparr> totalCalories = totalCalories t + num_or_zero (usda_calories usdaData) * multiplier,
       totalProtein = totalProtein t + num_or_zero (usda_protein usdaData) * multiplier,
       totalFat = totalFat t + num_or_zero (usda_fat usdaData) * multiplier,
       totalCarbs = totalCarbs t + num_or_zero (usda_carbohydrates usdaData) * multiplier,
       totalFiber = totalFiber t + num_or_zero (usda_fiber usdaData) * multiplier \<rparr>"

text \<open>The loop over the main ingredients, with the conversion \<open>convert\<close> of the class.
  \<open>unit.toLowerCase()\<close> throws on an ingredient without a unit; a \<open>NaN\<close> amount fails
  the test \<open>> 0\<close>. (The names are present here: the filter has read them.)\<close>

fun usda_loop ::
  "(real \<Rightarrow> string \<Rightarrow> jsnum) \<Rightarrow> (string \<Rightarrow> USDANutritionData option) \<Rightarrow>
   Ingredient list \<Rightarrow> MacroTotals \<Rightarrow> js_error + MacroTotals" where
  "usda_loop convert lookup [] t = Inr t"
| "usda_loop convert lookup (ingredient # rest) t =
     (case (case ing_name ingredient of None \<Rightarrow> None | Some name \<Rightarrow> lookup name) of
        None \<Rightarrow> usda_loop convert lookup rest t
      | Some usdaData \<Rightarrow>
          (case unit ingredient of
             None \<Rightarrow> Inl (TypeError ''Cannot read properties of undefined (reading toLowerCase)'')
           | Some u \<Rightarrow>
               (case convert (amount ingredient) u of
                  NaN \<Rightarrow> usda_loop convert lookup rest t
                | Num amountInGrams \<Rightarrow>
                    if amountInGrams > 0
                    then usda_loop convert lookup rest (add_usda t usdaData (amountInGrams / 100))
                    else usda_loop convert lookup rest t)))"

text \<open>\<open>calculateFromUSDA\<close>: \<open>null\<close> (here \<open>None\<close>) when an exception is caught.\<close>

definition calculateFromUSDA :: "Store \<Rightarrow> Ingredient list \<Rightarrow> NutritionInfo option" where
  "calculateFromUSDA store ings =
     (case mainIngredients_validator ings of
        Inl e \<Rightarrow> None
      | Inr mainIngredients \<Rightarrow>
          (case usda_loop convertToGrams (lookupUSDANutrition store) mainIngredients zero_totals of
             Inl e \<Rightarrow> None
           | Inr t \<Rightarrow>
               Some \<lparr> calories = Math_round (totalCalories t),
                      protein = Math_round (totalProtein t * 10) / 10,
                      fat = Math_round (totalFat t * 10) / 10,
                      carbohydrates = Math_round (totalCarbs t * 10) / 10,
                      fiber = Some (Math_round (totalFiber t * 10) / 10) \<rparr>))"

definition estimateNutrition :: "string \<Rightarrow> NutritionInfo" where
  "estimateNutrition recipeTitle =
     (let t = toLowerCase recipeTitle in
      if str_includes t ''salad'' then
        \<lparr> calories = 150, protein = 8, fat = 5, carbohydrates = 15, fiber = Some 3 \<rparr>
      else if str_includes t ''pasta'' \<or> str_includes t ''rice'' then
        \<lparr> calories = 400, protein = 12, fat = 8, carbohydrates = 60, fiber = Some 3 \<rparr>
      else if str_includes t ''chicken'' \<or> str_includes t ''beef'' then
        \<lparr> calories = 350, protein = 25, fat = 15, carbohydrates = 10, fiber = Some 3 \<rparr>
      else if str_includes t ''soup'' then
        \<lparr> calories = 200, protein = 10, fat = 6, carbohydrates = 20, fiber = Some 3 \<rparr>
      else
        \<lparr> calories = 300, protein = 15, fat = 10, carbohydrates = 30, fiber = Some 3 \<rparr>)"

text \<open>The tier that resolves a recipe: the nutrition data and the method, or nothing.\<close>

definition resolve_nutrition ::
  "Store \<Rightarrow> Recipe \<Rightarrow> bool \<Rightarrow> (NutritionInfo \<times> calc_method) option" where
  "resolve_nutrition store r useUSDAFallback =
     (case (case nutrition_info r of
              None \<Rightarrow> None
            | Some ni \<Rightarrow> if isReliableNutrition_validator ni then Some ni else None) of
        Some ni \<Rightarrow>
          Some (\<lparr> calories = calories ni, protein = protein ni, fat = fat ni,
                  carbohydrates = carbohydrates ni, fiber = Some (num_or_zero (fiber ni)) \<rparr>,
                spoonacular)
      | None \<Rightarrow>
          (case (if useUSDAFallback then ingredients r else None) of
             Some ings \<Rightarrow>
               (case calculateFromUSDA store ings of
                  Some usdaNutrition \<Rightarrow> Some (usdaNutrition, usda_calculated)
                | None \<Rightarrow> Some (estimateNutrition (title r), estimated))
           | None \<Rightarrow> None))"

text \<open>The recipe of a query, unless the call threw, returned an error or found no row.\<close>

definition found_recipe :: "js_error + Recipe query_result \<Rightarrow> Recipe option" where
  "found_recipe answer =
     (case answer of
        Inl e \<Rightarrow> None
      | Inr res \<Rightarrow> (case qerror res of Some e \<Rightarrow> None | None \<Rightarrow> qdata res))"

definition servingMultiplier_validator :: "real \<Rightarrow> Recipe \<Rightarrow> real" where
  "servingMultiplier_validator servs r = servs / or_one (servings r)"

definition calculateMealNutrition ::
  "Store \<Rightarrow> string \<Rightarrow> real \<Rightarrow> bool \<Rightarrow> MealNutrition option" where
  "calculateMealNutrition store recipeId servs useUSDAFallback =
     (case found_recipe (recipe_by_id store recipeId) of
        None \<Rightarrow> None
      | Some r \<Rightarrow>
          (case resolve_nutrition store r useUSDAFallback of
             None \<Rightarrow> None
           | Some (nutrition, calculationMethod) \<Rightarrow>
               (let servingMultiplier = servingMultiplier_validator servs r in
                Some \<lparr> mn_recipe_id = recipeId,
                       mn_recipe_title = title r,
                       mn_nutrition =
                         \<lparr> calories = Math_round (calories nutrition * servingMultiplier),
                           protein = Math_round ((protein nutrition * servingMultiplier) * 10) / 10,
                           fat = Math_round ((fat nutrition * servingMultiplier) * 10) / 10,
                           carbohydrates =
                             Math_round ((carbohydrates nutrition * servingMultiplier) * 10) / 10,
                           fiber = Some (Math_round
                             ((num_or_zero (fiber nutrition) * servingMultiplier) * 10) / 10) \<rparr>,
                       calculation_method = calculationMethod \<rparr>)))"

subsection \<open>validatePlan\<close>

record NutritionalTargets =
  daily_calories :: real
  daily_protein :: real
  daily_fat :: real
  daily_carbohydrates :: real
  daily_fiber :: "real option"

record ValidationOptions =
  deviation_threshold :: real
  require_all_recipes :: bool
  use_usda_fallback :: bool
  detailed_breakdown :: bool

text \<open>The default options of the request schema.\<close>

definition default_options :: ValidationOptions where
  "default_options =
     \<lparr> deviation_threshold = 15, require_all_recipes = True, use_usda_fallback = True,
       detailed_breakdown = False \<rparr>"

text \<open>A suggestion, kept as the instance of its template: the recipe id, or the nutrient
  name and the percentage that \<open>toFixed(1)\<close> prints.\<close>

datatype suggestion =
    MissingNutritionData string
  | ReduceIntake string real
  | IncreaseIntake string real

record DailyAverage =
  avg_calories :: jsnum
  avg_protein :: jsnum
  avg_fat :: jsnum
  avg_carbohydrates :: jsnum

record ValidatorAverage = DailyAverage +
  avg_fiber :: jsnum

record ValidatorDeviations = Deviations +
  fiber_deviation :: "jsnum option"

record ValidationResult =
  is_valid :: bool
  total_nutrition :: NutritionInfo
  daily_average :: ValidatorAverage
  target_deviations :: ValidatorDeviations
  within_threshold :: bool
  missing_nutrition_data :: "string list"
  suggestions :: "suggestion list"

text \<open>Arithmetic that can meet \<open>NaN\<close>. A total is divided by the number of days; with no
  day there is no meal, the total is 0, and \<open>0 / 0\<close> is \<open>NaN\<close>.\<close>

definition per_day :: "real \<Rightarrow> nat \<Rightarrow> jsnum" where
  "per_day tot dayCount = (if dayCount = 0 then NaN else Num (tot / real dayCount))"

fun round_calories :: "jsnum \<Rightarrow> jsnum" where
  "round_calories (Num x) = Num (Math_round x)"
| "round_calories NaN = NaN"

fun round_tenth :: "jsnum \<Rightarrow> jsnum" where
  "round_tenth (Num x) = Num (Math_round (x * 10) / 10)"
| "round_tenth NaN = NaN"

fun Math_abs :: "jsnum \<Rightarrow> jsnum" where
  "Math_abs (Num x) = Num \<bar>x\<bar>"
| "Math_abs NaN = NaN"

text \<open>\<open>a <= b\<close> and \<open>a > b\<close> for a possibly \<open>NaN\<close> left side: both are false on \<open>NaN\<close>.\<close>

fun js_le :: "jsnum \<Rightarrow> real \<Rightarrow> bool" where
  "js_le (Num x) b = (x \<le> b)"
| "js_le NaN b = False"

fun js_gt :: "jsnum \<Rightarrow> real \<Rightarrow> bool" where
  "js_gt (Num x) b = (x > b)"
| "js_gt NaN b = False"

definition calculateDeviation :: "jsnum \<Rightarrow> real \<Rightarrow> jsnum" where
  "calculateDeviation actual target =
     (if target = 0 then Num 0
      else case actual of NaN \<Rightarrow> NaN | Num a \<Rightarrow> Num (((a - target) / target) * 100))"

record ValidateState =
  totalNutrition :: NutritionInfo
  missingData :: "string list"
  vs_suggestions :: "suggestion list"

definition validate_init :: ValidateState where
  "validate_init =
     \<lparr> totalNutrition = \<lparr> calories = 0, protein = 0, fat = 0, carbohydrates = 0,
                           fiber = Some 0 \<rparr>,
       missingData = [], vs_suggestions = [] \<rparr>"

definition add_nutrition :: "NutritionInfo \<Rightarrow> NutritionInfo \<Rightarrow> NutritionInfo" where
  "add_nutrition tot n =
     \<lparr> calories = calories tot + calories n,
       protein = protein tot + protein n,
       fat = fat tot + fat n,
       carbohydrates = carbohydrates tot + carbohydrates n,
       fiber = Some (num_or_zero (fiber tot) + num_or_zero (fiber n)) \<rparr>"

text \<open>One meal of the loop. The per-day breakdown that the loop also fills (returned only
  when \<open>detailed_breakdown\<close> is set) is left out.\<close>

definition meal_step :: "Store \<Rightarrow> ValidationOptions \<Rightarrow> MealSlot \<Rightarrow> ValidateState \<Rightarrow> ValidateState" where
  "meal_step store options meal st =
     (case calculateMealNutrition store (recipe_id meal)
             (case slot_servings meal of None \<Rightarrow> 1 | Some s \<Rightarrow> or_one s)
             (use_usda_fallback options) of
        Some mealNutrition \<Rightarrow>
          st\<lparr> totalNutrition := add_nutrition (totalNutrition st) (mn_nutrition mealNutrition) \<rparr>
      | None \<Rightarrow>
          st\<lparr> missingData := missingData st @ [''Recipe '' @ recipe_id meal],
              vs_suggestions :=
                (if require_all_recipes options
                 then vs_suggestions st @ [MissingNutritionData (recipe_id meal)]
                 else vs_suggestions st) \<rparr>)"

definition validate_loop :: "Store \<Rightarrow> ValidationOptions \<Rightarrow> DayPlan list \<Rightarrow> ValidateState" where
  "validate_loop store options ds =
     fold (\<lambda>d st. fold (meal_step store options) (meals d) st) ds validate_init"

text \<open>\<open>generateNutritionSuggestions\<close>: one suggestion for each deviation that is a number
  beyond the threshold, in the order of the fields.\<close>

definition suggestion_for :: "string \<Rightarrow> jsnum \<Rightarrow> real \<Rightarrow> suggestion list" where
  "suggestion_for nutrientName deviation threshold =
     (case deviation of
        NaN \<Rightarrow> []
      | Num d \<Rightarrow>
          if \<bar>d\<bar> > threshold
          then (if d > 0 then [ReduceIntake nutrientName d] else [IncreaseIntake nutrientName \<bar>d\<bar>])
          else [])"

definition generateNutritionSuggestions_validator ::
  "ValidatorDeviations \<Rightarrow> real \<Rightarrow> suggestion list" where
  "generateNutritionSuggestions_validator deviations threshold =
     suggestion_for ''calories'' (calories_deviation deviations) threshold @
     suggestion_for ''protein'' (protein_deviation deviations) threshold @
     suggestion_for ''fat'' (fat_deviation deviations) threshold @
     suggestion_for ''carbohydrates'' (carbohydrates_deviation deviations) threshold @
     (case fiber_deviation deviations of
        None \<Rightarrow> []
      | Some d \<Rightarrow> suggestion_for ''fiber'' d threshold)"

definition validatePlan ::
  "Store \<Rightarrow> PlanData \<Rightarrow> NutritionalTargets \<Rightarrow> ValidationOptions \<Rightarrow> ValidationResult" where
  "validatePlan store planData targets options =
     (let st = validate_loop store options (days planData);
          tot = totalNutrition st;
          dayCount = length (days planData);
          dailyAverage =
            \<lparr> avg_calories = round_calories (per_day (calories tot) dayCount),
              avg_protein = round_tenth (per_day (protein tot) dayCount),
              avg_fat = round_tenth (per_day (fat tot) dayCount),
              avg_carbohydrates = round_tenth (per_day (carbohydrates tot) dayCount),
              avg_fiber = round_tenth (per_day (num_or_zero (fiber tot)) dayCount) \<rparr>;
          deviations =
            \<lparr> calories_deviation =
                calculateDeviation (avg_calories dailyAverage) (daily_calories targets),
              protein_deviation =
                calculateDeviation (avg_protein dailyAverage) (daily_protein targets),
              fat_deviation = calculateDeviation (avg_fat dailyAverage) (daily_fat targets),
              carbohydrates_deviation =
                calculateDeviation (avg_carbohydrates dailyAverage) (daily_carbohydrates targets),
              fiber_deviation =
                (case daily_fiber targets of
                   None \<Rightarrow> None
                 | Some f \<Rightarrow>
                     if f = 0 then None
                     else Some (calculateDeviation (avg_fiber dailyAverage) f)) \<rparr>;
          coreDeviations =
            [Math_abs (calories_deviation deviations), Math_abs (protein_deviation deviations),
             Math_abs (fat_deviation deviations), Math_abs (carbohydrates_deviation deviations)];
          withinThreshold = list_all (\<lambda>dev. js_le dev (deviation_threshold options)) coreDeviations;
          isValid = (withinThreshold \<and>
                     (if require_all_recipes options then missingData st = [] else True))
      in \<lparr> is_valid = isValid,
           total_nutrition = tot,
           daily_average = dailyAverage,
           target_deviations = deviations,
           within_threshold = withinThreshold,
           missing_nutrition_data = missingData st,
           suggestions =
             (if \<not> withinThreshold
              then vs_suggestions st @
                   generateNutritionSuggestions_validator deviations (deviation_threshold options)
              else vs_suggestions st) \<rparr>)"

section \<open>Nutrition council (src/agents/nutrition-council.ts)\<close>

definition isReliableNutrition_council :: "NutritionInfo \<Rightarrow> bool" where
  "isReliableNutrition_council nutrition = (calories nutrition > 0 \<and> protein nutrition \<ge> 0)"

definition minorIngredients_council :: "string list" where
  "minorIngredients_council =
     [''salt'', ''pepper'', ''oil'', ''water'', ''vanilla'', ''baking powder'', ''garlic powder'']"

definition isMinorIngredient_council :: "string \<Rightarrow> bool" where
  "isMinorIngredient_council name =
     list_ex (\<lambda>minor. str_includes (toLowerCase name) minor) minorIngredients_council"

fun mainIngredients_council :: "Ingredient list \<Rightarrow> js_error + Ingredient list" where
  "mainIngredients_council [] = Inr []"
| "mainIngredients_council (ing # rest) =
     (if amount ing > 0 then
        (case ing_name ing of
           None \<Rightarrow> Inl (TypeError ''Cannot read properties of undefined (reading toLowerCase)'')
         | Some name \<Rightarrow>
             (case mainIngredients_council rest of
                Inl e \<Rightarrow> Inl e
              | Inr l \<Rightarrow> Inr (if isMinorIngredient_council name then l else ing # l)))
      else mainIngredients_council rest)"

text \<open>\<open>calculateRecipeNutritionFromUSDA\<close>: \<open>null\<close> when an exception is caught, as for a
  recipe whose \<open>ingredients\<close> are absent (\<open>recipe.ingredients.filter\<close> throws). The council
  sums no fiber.\<close>

definition calculateRecipeNutritionFromUSDA :: "Store \<Rightarrow> Recipe \<Rightarrow> NutritionInfo option" where
  "calculateRecipeNutritionFromUSDA store r =
     (case ingredients r of
        None \<Rightarrow> None
      | Some ings \<Rightarrow>
          (case mainIngredients_council ings of
             Inl e \<Rightarrow> None
           | Inr mainIngredients \<Rightarrow>
               (case usda_loop convertToStandardAmount (lookupUSDANutrition store)
                       mainIngredients zero_totals of
                  Inl e \<Rightarrow> None
                | Inr t \<Rightarrow>
                    Some \<lparr> calories = Math_round (totalCalories t),
                           protein = Math_round (totalProtein t * 10) / 10,
                           fat = Math_round (totalFat t * 10) / 10,
                           carbohydrates = Math_round (totalCarbs t * 10) / 10,
                           fiber = None \<rparr>)))"

text \<open>The nutrition that the council takes for a recipe: the declared one when it passes
  the council's own reliability test, the computed one otherwise.\<close>

definition council_meal_nutrition :: "Store \<Rightarrow> Recipe \<Rightarrow> NutritionInfo option" where
  "council_meal_nutrition store r =
     (case nutrition_info r of
        Some ni \<Rightarrow>
          if isReliableNutrition_council ni then Some ni
          else calculateRecipeNutritionFromUSDA store r
      | None \<Rightarrow> calculateRecipeNutritionFromUSDA store r)"

definition servingMultiplier_council :: "MealSlot \<Rightarrow> Recipe \<Rightarrow> real" where
  "servingMultiplier_council meal r =
     (case slot_servings meal of None \<Rightarrow> 1 | Some s \<Rightarrow> or_one s) / or_one (servings r)"

text \<open>The loop of \<open>calculatePlanNutrition\<close> over the meals of all days: a recipe that the
  store does not return is skipped; an exception of the call ends the loop (and the
  function returns \<open>null\<close>).\<close>

fun plan_loop :: "Store \<Rightarrow> MealSlot list \<Rightarrow> MacroTotals \<Rightarrow> js_error + MacroTotals" where
  "plan_loop store [] t = Inr t"
| "plan_loop store (meal # rest) t =
     (case recipe_by_id store (recipe_id meal) of
        Inl e \<Rightarrow> Inl e
      | Inr res \<Rightarrow>
          (case found_recipe (Inr res) of
             None \<Rightarrow> plan_loop store rest t
           | Some r \<Rightarrow>
               (case council_meal_nutrition store r of
                  None \<Rightarrow> plan_loop store rest t
                | Some mealNutrition \<Rightarrow>
                    (let servingMultiplier = servingMultiplier_council meal r in
                     plan_loop store rest
                       (t\<lparr> totalCalories := totalCalories t + calories mealNutrition * servingMultiplier,
                           totalProtein := totalProtein t + protein mealNutrition * servingMultiplier,
                           totalFat := totalFat t + fat mealNutrition * servingMultiplier,
                           totalCarbs := totalCarbs t + carbohydrates mealNutrition * servingMultiplier \<rparr>)))))"

definition calculatePlanNutrition :: "Store \<Rightarrow> PlanData \<Rightarrow> NutritionInfo option" where
  "calculatePlanNutrition store planData =
     (case plan_loop store (concat (map meals (days planData))) zero_totals of
        Inl e \<Rightarrow> None
      | Inr t \<Rightarrow>
          Some \<lparr> calories = Math_round (totalCalories t),
                 protein = Math_round (totalProtein t),
                 fat = Math_round (totalFat t),
                 carbohydrates = Math_round (totalCarbs t),
                 fiber = None \<rparr>)"

record CouncilValidation =
  cv_is_valid :: bool
  cv_total_nutrition :: NutritionInfo
  cv_daily_average :: DailyAverage
  cv_target_deviations :: Deviations
  within_15_percent_threshold :: bool
  cv_missing_nutrition_data :: "string list"
  cv_suggestions :: "string list"

definition calculateDailyAverage :: "NutritionInfo \<Rightarrow> nat \<Rightarrow> DailyAverage" where
  "calculateDailyAverage tot dayCount =
     \<lparr> avg_calories = round_calories (per_day (calories tot) dayCount),
       avg_protein = round_tenth (per_day (protein tot) dayCount),
       avg_fat = round_tenth (per_day (fat tot) dayCount),
       avg_carbohydrates = round_tenth (per_day (carbohydrates tot) dayCount) \<rparr>"

definition zero_average :: DailyAverage where
  "zero_average =
     \<lparr> avg_calories = Num 0, avg_protein = Num 0, avg_fat = Num 0,
       avg_carbohydrates = Num 0 \<rparr>"

definition generateNutritionSuggestions_council :: "Deviations \<Rightarrow> string list" where
  "generateNutritionSuggestions_council deviations =
     (if js_gt (Math_abs (calories_deviation deviations)) 15
      then (if js_gt (calories_deviation deviations) 0
            then [''Reduce portion sizes or choose lighter recipes'']
            else [''Add snacks or choose more calorie-dense recipes''])
      else []) @
     (if js_gt (Math_abs (protein_deviation deviations)) 15
      then (case protein_deviation deviations of
              Num d \<Rightarrow>
                if d < 0
                then [''Include more protein-rich foods like lean meats, legumes, or dairy'']
                else []
            | NaN \<Rightarrow> [])
      else [])"

text \<open>\<open>validateNutrition\<close>, given the plan data and \<open>blueprint.nutritional_targets\<close>. Its
  \<open>catch\<close> branch answers an exception that none of the modelled steps throws.\<close>

definition validateNutrition ::
  "Store \<Rightarrow> PlanData \<Rightarrow> NutritionalTargets option \<Rightarrow> CouncilValidation" where
  "validateNutrition store planData targets_opt =
     (case calculatePlanNutrition store planData of
        None \<Rightarrow>
          \<lparr> cv_is_valid = False,
            cv_total_nutrition = \<lparr> calories = 0, protein = 0, fat = 0, carbohydrates = 0,
                                    fiber = None \<rparr>,
            cv_daily_average = zero_average,
            cv_target_deviations =
              \<lparr> calories_deviation = Num 100, protein_deviation = Num 100,
                fat_deviation = Num 100, carbohydrates_deviation = Num 100 \<rparr>,
            within_15_percent_threshold = False,
            cv_missing_nutrition_data = [''Complete nutrition calculation failed''],
            cv_suggestions = [''Unable to validate nutrition - insufficient data''] \<rparr>
      | Some totalN \<Rightarrow>
          (case targets_opt of
             None \<Rightarrow>
               \<lparr> cv_is_valid = False,
                 cv_total_nutrition = totalN,
                 cv_daily_average = calculateDailyAverage totalN (length (days planData)),
                 cv_target_deviations =
                   \<lparr> calories_deviation = Num 0, protein_deviation = Num 0,
                     fat_deviation = Num 0, carbohydrates_deviation = Num 0 \<rparr>,
                 within_15_percent_threshold = False,
                 cv_missing_nutrition_data = [''User nutritional targets not calculated''],
                 cv_suggestions = [''Complete user profile to enable nutritional validation''] \<rparr>
           | Some targets \<Rightarrow>
               (let dailyAverage = calculateDailyAverage totalN (length (days planData));
                    deviations =
                      \<lparr> calories_deviation =
                          calculateDeviation (avg_calories dailyAverage) (daily_calories targets),
                        protein_deviation =
                          calculateDeviation (avg_protein dailyAverage) (daily_protein targets),
                        fat_deviation =
                          calculateDeviation (avg_fat dailyAverage) (daily_fat targets),
                        carbohydrates_deviation =
                          calculateDeviation (avg_carbohydrates dailyAverage)
                            (daily_carbohydrates targets) \<rparr>;
                    within15Percent =
                      list_all (\<lambda>dev. js_le (Math_abs dev) 15)
                        [calories_deviation deviations, protein_deviation deviations,
                         fat_deviation deviations, carbohydrates_deviation deviations];
                    suggs = generateNutritionSuggestions_council deviations
                in \<lparr> cv_is_valid = within15Percent,
                     cv_total_nutrition = totalN,
                     cv_daily_average = dailyAverage,
                     cv_target_deviations = deviations,
                     within_15_percent_threshold = within15Percent,
                     cv_missing_nutrition_data = [],
                     cv_suggestions = (if within15Percent then [] else suggs) \<rparr>)))"

subsection \<open>Coherence review\<close>

text \<open>The values that \<open>JSON.parse\<close> returns.\<close>

datatype json =
    JNull
  | JBool bool
  | JNumber real
  | JString string
  | JArray "json list"
  | JObject "(string \<times> json) list"

fun js_truthy :: "json \<Rightarrow> bool" where
  "js_truthy JNull = False"
| "js_truthy (JBool b) = b"
| "js_truthy (JNumber n) = (n \<noteq> 0)"
| "js_truthy (JString s) = (s \<noteq> [])"
| "js_truthy (JArray xs) = True"
| "js_truthy (JObject kvs) = True"

text \<open>\<open>ToNumber\<close>, as the comparison \<open>rating >= 7\<close> applies it. \<open>StringToNumber\<close> is the
  conversion of the language for strings, a parameter. An array is first joined with
  commas: the empty array gives the empty string, that is 0; an array of one element
  converts like the text of that element; a longer one gives a text with a comma, which
  is not a number. An object gives \<open>[object Object]\<close>.\<close>

fun ToNumber :: "(string \<Rightarrow> jsnum) \<Rightarrow> json \<Rightarrow> jsnum" where
  "ToNumber S JNull = Num 0"
| "ToNumber S (JBool b) = Num (if b then 1 else 0)"
| "ToNumber S (JNumber n) = Num n"
| "ToNumber S (JString s) = S s"
| "ToNumber S (JObject kvs) = NaN"
| "ToNumber S (JArray []) = Num 0"
| "ToNumber S (JArray [JNull]) = Num 0"
| "ToNumber S (JArray [JBool b]) = NaN"
| "ToNumber S (JArray [JNumber n]) = Num n"
| "ToNumber S (JArray [JString s]) = S s"
| "ToNumber S (JArray [JObject kvs]) = NaN"
| "ToNumber S (JArray [JArray xs]) = ToNumber S (JArray xs)"
| "ToNumber S (JArray (x # y # zs)) = NaN"

fun js_ge :: "jsnum \<Rightarrow> real \<Rightarrow> bool" where
  "js_ge (Num x) b = (x \<ge> b)"
| "js_ge NaN b = False"

text \<open>\<open>parsed.rating\<close> and \<open>parsed.feedback\<close>: the own property of an object (neither name
  is an inherited one), \<open>undefined\<close> on any other value but \<open>null\<close>, where reading a property
  throws.\<close>

fun json_field :: "json \<Rightarrow> string \<Rightarrow> js_error + json option" where
  "json_field (JObject kvs) k = Inr (map_of kvs k)"
| "json_field JNull k = Inl (TypeError ''Cannot read properties of null'')"
| "json_field v k = Inr None"

record CoherenceParse =
  cp_rating :: json
  cp_feedback :: json

definition or_default :: "json option \<Rightarrow> json \<Rightarrow> json" where
  "or_default v d = (case v of None \<Rightarrow> d | Some x \<Rightarrow> if js_truthy x then x else d)"

definition parse_failed :: CoherenceParse where
  "parse_failed =
     \<lparr> cp_rating = JNumber 0, cp_feedback = JString ''Failed to parse coherence response'' \<rparr>"

definition parseCoherenceResponse ::
  "(string \<Rightarrow> js_error + json) \<Rightarrow> string \<Rightarrow> CoherenceParse" where
  "parseCoherenceResponse JSON_parse response =
     (case regex_match_braces response of
        None \<Rightarrow> parse_failed
      | Some jsonMatch \<Rightarrow>
          (case JSON_parse jsonMatch of
             Inl e \<Rightarrow> parse_failed
           | Inr parsed \<Rightarrow>
               (case (json_field parsed ''rating'', json_field parsed ''feedback'') of
                  (Inr r, Inr f) \<Rightarrow>
                    \<lparr> cp_rating = or_default r (JNumber 0),
                      cp_feedback = or_default f (JString ''No feedback provided'') \<rparr>
                | _ \<Rightarrow> parse_failed)))"

text \<open>The answer of the review service to one request: an exception (a failed call or a
  status that is not ok), or the text of the message with the token counts of \<open>usage\<close>.\<close>

datatype fetch_outcome = FetchError string | FetchOk string "nat option" "nat option"

definition calculateCost :: "nat \<Rightarrow> nat \<Rightarrow> nat" where
  "calculateCost inputTokens outputTokens =
     nat \<lfloor>Math_round (((real inputTokens / 1000) * 0.003 + (real outputTokens / 1000) * 0.015) * 100)\<rfloor>"

record CoherenceResult =
  co_success :: bool
  co_rating :: json
  co_feedback :: json
  co_tokens_used :: "nat option"
  co_cost_cents :: "nat option"

definition validateCoherence ::
  "(string \<Rightarrow> js_error + json) \<Rightarrow> fetch_outcome \<Rightarrow> CoherenceResult" where
  "validateCoherence JSON_parse answer =
     (case answer of
        FetchError m \<Rightarrow>
          \<lparr> co_success = False, co_rating = JNumber 0,
            co_feedback = JString (''Coherence validation failed: '' @ m),
            co_tokens_used = None, co_cost_cents = None \<rparr>
      | FetchOk aiResponse input_tokens output_tokens \<Rightarrow>
          (let result = parseCoherenceResponse JSON_parse aiResponse in
           \<lparr> co_success = True, co_rating = cp_rating result, co_feedback = cp_feedback result,
             co_tokens_used =
               Some (case (input_tokens, output_tokens) of
                       (Some a, Some b) \<Rightarrow> a + b
                     | _ \<Rightarrow> 0),
             co_cost_cents = Some (calculateCost (or_zero input_tokens) (or_zero output_tokens)) \<rparr>))"

text \<open>The test of acceptance: \<open>coherenceResult.success && coherenceResult.rating >= 7\<close>.\<close>

definition coherence_accepts :: "(string \<Rightarrow> jsnum) \<Rightarrow> CoherenceResult \<Rightarrow> bool" where
  "coherence_accepts StringToNumber coherenceResult =
     (co_success coherenceResult \<and> js_ge (ToNumber StringToNumber (co_rating coherenceResult)) 7)"

subsection \<open>validateAndRefine\<close>

text \<open>The result of \<open>assembleMealPlan\<close>, which calls the assembly service and parses its
  answer.\<close>

datatype assembly = AssemblySuccess MealPlan StageUsage | AssemblyFailure "string option" StageUsage

text \<open>The world of one call: the store, the assembled plan, the targets of the
  blueprint, the answer of the review service at each pass, and the two conversions of
  the language.\<close>

record CouncilWorld =
  cw_store :: Store
  cw_assembly :: assembly
  cw_targets :: "NutritionalTargets option"
  cw_review :: "nat \<Rightarrow> fetch_outcome"
  cw_JSON_parse :: "string \<Rightarrow> js_error + json"
  cw_StringToNumber :: "string \<Rightarrow> jsnum"

record CouncilState =
  cs_retryCount :: nat
  claudeRequests :: nat
  cs_totalTokensUsed :: nat
  cs_totalCostCents :: nat
  lastValidationResult :: "CouncilValidation option"

text \<open>\<open>xs.join(', ')\<close>.\<close>

fun join_comma :: "string list \<Rightarrow> string" where
  "join_comma [] = []"
| "join_comma [x] = x"
| "join_comma (x # y # zs) = x @ '', '' @ join_comma (y # zs)"

definition council_failure :: "CouncilState \<Rightarrow> CouncilResult" where
  "council_failure st =
     \<lparr> claude_requests = Some (claudeRequests st),
       tokens_used = Some (cs_totalTokensUsed st),
       cost_cents = Some (cs_totalCostCents st),
       cr_success = False, cr_meal_plan = None, cr_nutritional_accuracy = None,
       cr_error = Some (''Validation failed after 3 attempts. Last issue: '' @
         (case lastValidationResult st of
            None \<Rightarrow> ''Unknown validation error''
          | Some v \<Rightarrow>
              if join_comma (cv_suggestions v) = [] then ''Unknown validation error''
              else join_comma (cv_suggestions v))) \<rparr>"

text \<open>The validation loop. \<open>improvePlanCoherence\<close> and \<open>fixNutritionalIssues\<close> always answer
  \<open>success: false\<close> without usage counts, so the plan never changes.\<close>

function council_loop :: "CouncilWorld \<Rightarrow> MealPlan \<Rightarrow> CouncilState \<Rightarrow> CouncilResult" where
  "council_loop w currentPlan st =
     (if cs_retryCount st < maxRetries then
        (let nutritionResult = validateNutrition (cw_store w) (plan_data currentPlan) (cw_targets w) in
         if cv_is_valid nutritionResult then
           (let coherenceResult = validateCoherence (cw_JSON_parse w) (cw_review w (cs_retryCount st));
                st1 = st\<lparr> claudeRequests := claudeRequests st + 1,
                          cs_totalTokensUsed :=
                            cs_totalTokensUsed st + or_zero (co_tokens_used coherenceResult),
                          cs_totalCostCents :=
                            cs_totalCostCents st + or_zero (co_cost_cents coherenceResult) \<rparr>
            in if coherence_accepts (cw_StringToNumber w) coherenceResult then
                 \<lparr> claude_requests = Some (claudeRequests st1),
                   tokens_used = Some (cs_totalTokensUsed st1),
                   cost_cents = Some (cs_totalCostCents st1),
                   cr_success = True, cr_meal_plan = Some currentPlan,
                   cr_nutritional_accuracy = Some (cv_target_deviations nutritionResult),
                   cr_error = None \<rparr>
               else council_loop w currentPlan (st1\<lparr> cs_retryCount := cs_retryCount st + 1 \<rparr>))
         else council_loop w currentPlan
                (st\<lparr> lastValidationResult := Some nutritionResult,
                    cs_retryCount := cs_retryCount st + 1 \<rparr>))
      else council_failure st)"
  by pat_completeness auto
termination
  by (relation "measure (\<lambda>(w, p, st). maxRetries - cs_retryCount st)") auto

definition validateAndRefine :: "CouncilWorld \<Rightarrow> CouncilResult" where
  "validateAndRefine w =
     (case cw_assembly w of
        AssemblyFailure err usage \<Rightarrow>
          \<lparr> claude_requests = Some (or_zero (claude_requests usage)),
            tokens_used = Some (or_zero (tokens_used usage)),
            cost_cents = Some (or_zero (cost_cents usage)),
            cr_success = False, cr_meal_plan = None, cr_nutritional_accuracy = None,
            cr_error = err \<rparr>
      | AssemblySuccess plan usage \<Rightarrow>
          council_loop w plan
            \<lparr> cs_retryCount = 0,
              claudeRequests = or_zero (claude_requests usage),
              cs_totalTokensUsed = or_zero (tokens_used usage),
              cs_totalCostCents = or_zero (cost_cents usage),
              lastValidationResult = None \<rparr>)"

section \<open>Quantities of the threshold property\<close>

text \<open>The quantities in which the threshold property is stated. The meals of a plan in
  the order of the loops; for the validator, the nutrition that \<open>calculateMealNutrition\<close>
  resolves for a meal slot, the resolved meals and the unresolved ones; for the council,
  the nutrition and the serving multiplier of a meal slot whose recipe is found and
  resolved, the rounded plan total of a nutrient, and whether a call of the store
  throws. \<open>spec_deviation\<close> is the deviation as the specification words it:
  (actual - target) / target * 100, and 0 when the target is 0; the daily average is
  the plan total divided by the number of days, calories rounded to the nearest integer
  and grams to one decimal.\<close>

definition plan_meals :: "PlanData \<Rightarrow> MealSlot list" where
  "plan_meals planData = concat (map meals (days planData))"

definition meal_nutrition :: "Store \<Rightarrow> ValidationOptions \<Rightarrow> MealSlot \<Rightarrow> NutritionInfo option" where
  "meal_nutrition store options meal =
     map_option mn_nutrition
       (calculateMealNutrition store (recipe_id meal)
          (case slot_servings meal of None \<Rightarrow> 1 | Some s \<Rightarrow> or_one s)
          (use_usda_fallback options))"

definition resolved_nutrition :: "Store \<Rightarrow> ValidationOptions \<Rightarrow> PlanData \<Rightarrow> NutritionInfo list" where
  "resolved_nutrition store options planData =
     List.map_filter (meal_nutrition store options) (plan_meals planData)"

definition unresolved_meals :: "Store \<Rightarrow> ValidationOptions \<Rightarrow> PlanData \<Rightarrow> MealSlot list" where
  "unresolved_meals store options planData =
     filter (\<lambda>meal. meal_nutrition store options meal = None) (plan_meals planData)"

definition spec_deviation :: "real \<Rightarrow> real \<Rightarrow> real" where
  "spec_deviation actual target = (if target = 0 then 0 else (actual - target) / target * 100)"

definition spec_calories_average :: "real \<Rightarrow> nat \<Rightarrow> real" where
  "spec_calories_average tot dayCount = Math_round (tot / real dayCount)"

definition spec_grams_average :: "real \<Rightarrow> nat \<Rightarrow> real" where
  "spec_grams_average tot dayCount = Math_round (tot / real dayCount * 10) / 10"

definition council_portion :: "Store \<Rightarrow> MealSlot \<Rightarrow> (NutritionInfo \<times> real) option" where
  "council_portion store meal =
     (case found_recipe (recipe_by_id store (recipe_id meal)) of
        None \<Rightarrow> None
      | Some r \<Rightarrow>
          map_option (\<lambda>ni. (ni, servingMultiplier_council meal r))
            (council_meal_nutrition store r))"

definition council_total :: "Store \<Rightarrow> PlanData \<Rightarrow> (NutritionInfo \<Rightarrow> real) \<Rightarrow> real" where
  "council_total store planData field =
     Math_round (sum_list (map (\<lambda>(ni, k). field ni * k)
                   (List.map_filter (council_portion store) (plan_meals planData))))"

definition store_throws :: "Store \<Rightarrow> PlanData \<Rightarrow> bool" where
  "store_throws store planData =
     list_ex (\<lambda>meal. isl (recipe_by_id store (recipe_id meal))) (plan_meals planData)"

section \<open>Sample data for the concrete instances\<close>

definition sample_recipe :: "string \<Rightarrow> Recipe" where
  "sample_recipe i =
     \<lparr> recipe_ident = i, title = ''Dish'', ingredients = None, nutrition_info = None,
       servings = 1, cuisine_type = None, meal_type = [], is_premium = False,
       rating_average = 5 \<rparr>"

text \<open>A request whose \<open>week_start_date\<close> is a string that is no date reaches the
  controller with the Invalid Date in its context.\<close>

definition invalid_date_context :: GenerationContext where
  "invalid_date_context =
     \<lparr> ctx_user_id = ''user'', ctx_generation_id = ''gen'', ctx_week_start_date = InvalidDate \<rparr>"

definition sample_context :: GenerationContext where
  "sample_context =
     \<lparr> ctx_user_id = ''user'', ctx_generation_id = ''gen'', ctx_week_start_date = TimeValue 0 \<rparr>"

text \<open>A world in which every round passes selection and fails validation (the coherence
  rating stays below 7), and the fallback query finds two recipes.\<close>

definition failing_world :: World where
  "failing_world =
     \<lparr> w_selectCandidates = (\<lambda>_. \<lparr> claude_requests = Some 1, tokens_used = Some 100,
                                    cost_cents = Some 1, sel_success = True, sel_error = None \<rparr>),
       w_validateAndRefine = (\<lambda>_. \<lparr> claude_requests = Some 4, tokens_used = Some 400,
                                    cost_cents = Some 4, cr_success = False, cr_meal_plan = None,
                                    cr_nutritional_accuracy = None,
                                    cr_error = Some ''Validation failed after 3 attempts. Last issue: Unknown validation error'' \<rparr>),
       w_enhancePlan = (\<lambda>_. \<lparr> claude_requests = None, tokens_used = None, cost_cents = None,
                              en_meal_plan = None \<rparr>),
       w_saveMealPlan = (\<lambda>_. Inl (TypeError ''Cannot read properties of undefined'')),
       w_fallbackRecipes = \<lparr> qdata = Some [sample_recipe ''a'', sample_recipe ''b''],
                             qerror = None \<rparr>,
       w_uuid = ''plan'' \<rparr>"

text \<open>A premium user who loved recipe \<open>a\<close> and swapped away from recipe \<open>b\<close>.\<close>

definition sample_blueprint :: UserBlueprint where
  "sample_blueprint =
     \<lparr> access_to_premium_content = True, cultural_preferences = None,
       cooking_time_preference = None,
       recent_ratings = Some [\<lparr> rr_recipe_id = ''a'', rating = love \<rparr>,
                              \<lparr> rr_recipe_id = ''c'', rating = meh \<rparr>],
       recent_swaps = Some [\<lparr> original_recipe_id = ''b'', replacement_recipe_id = ''a'' \<rparr>] \<rparr>"

definition sample_preferences :: GenerationPreferences where
  "sample_preferences = \<lparr> focus_macros = None, enforce_variety = None \<rparr>"

definition sample_candidate :: "string \<Rightarrow> bool \<Rightarrow> real \<Rightarrow> RecipeCandidate" where
  "sample_candidate i premium s =
     \<lparr> recipe = (sample_recipe i)\<lparr> is_premium := premium \<rparr>, base_score = 100,
       ai_personalization_score = s, final_score = 0, match_reasons = [],
       penalty_reasons = [] \<rparr>"

text \<open>Candidates of one cuisine, for the diversity selection.\<close>

definition cuisine_candidate :: "string \<Rightarrow> string \<Rightarrow> RecipeCandidate" where
  "cuisine_candidate i c =
     \<lparr> recipe = (sample_recipe i)\<lparr> cuisine_type := Some c \<rparr>, base_score = 100,
       ai_personalization_score = 100, final_score = 70, match_reasons = [],
       penalty_reasons = [] \<rparr>"

definition seven_italian :: "RecipeCandidate list" where
  "seven_italian = map (\<lambda>i. cuisine_candidate i ''italian'')
     [''r1'', ''r2'', ''r3'', ''r4'', ''r5'', ''r6'', ''r7'']"

definition sixteen_italian :: "RecipeCandidate list" where
  "sixteen_italian = map (\<lambda>i. cuisine_candidate i ''italian'')
     [''r01'', ''r02'', ''r03'', ''r04'', ''r05'', ''r06'', ''r07'', ''r08'',
      ''r09'', ''r10'', ''r11'', ''r12'', ''r13'', ''r14'', ''r15'', ''r16'']"

text \<open>Seventeen Italian recipes and a scorer response \<open>{"recipe_scores": {}}\<close> that
  scores none of them; a blueprint without history or premium access.\<close>

definition italian_recipe :: "string \<Rightarrow> Recipe" where
  "italian_recipe i = (sample_recipe i)\<lparr> cuisine_type := Some ''italian'' \<rparr>"

definition seventeen_recipes :: "Recipe list" where
  "seventeen_recipes = map italian_recipe
     [''r01'', ''r02'', ''r03'', ''r04'', ''r05'', ''r06'', ''r07'', ''r08'',
      ''r09'', ''r10'', ''r11'', ''r12'', ''r13'', ''r14'', ''r15'', ''r16'', ''x'']"

definition empty_scores_response :: string where
  "empty_scores_response =
     ''Scores: {'' @ [CHR 0x22] @ ''recipe_scores'' @ [CHR 0x22] @ '': {}} done''"

definition empty_scores_parse :: "string \<Rightarrow> js_error + ScoringPayload" where
  "empty_scores_parse s =
     (if s = ''{'' @ [CHR 0x22] @ ''recipe_scores'' @ [CHR 0x22] @ '': {}}''
      then Inr \<lparr> recipe_scores = Some (\<lambda>_. None) \<rparr>
      else Inl (SyntaxError ''Unexpected token''))"

definition plain_blueprint :: UserBlueprint where
  "plain_blueprint =
     \<lparr> access_to_premium_content = False, cultural_preferences = None,
       cooking_time_preference = None, recent_ratings = Some [], recent_swaps = Some [] \<rparr>"

text \<open>A small store: recipe \<open>plain\<close> declares reliable nutrition, recipe \<open>negfat\<close> declares
  a negative fat value, recipe \<open>bare\<close> declares nothing and has fully described
  ingredients, recipe \<open>nounit\<close> has an ingredient without a unit; \<open>zero\<close> and \<open>minus\<close>
  are \<open>plain\<close> with 0 and -2 servings.\<close>

definition declared :: "real \<Rightarrow> real \<Rightarrow> real \<Rightarrow> real \<Rightarrow> NutritionInfo" where
  "declared c p f cb = \<lparr> calories = c, protein = p, fat = f, carbohydrates = cb, fiber = None \<rparr>"

definition sample_recipes :: "(string \<times> Recipe) list" where
  "sample_recipes =
     [(''plain'', (sample_recipe ''plain'')\<lparr> nutrition_info := Some (declared 300 20 10 30),
                                             servings := 2 \<rparr>),
      (''zero'', (sample_recipe ''zero'')\<lparr> nutrition_info := Some (declared 300 20 10 30),
                                           servings := 0 \<rparr>),
      (''minus'', (sample_recipe ''minus'')\<lparr> nutrition_info := Some (declared 300 20 10 30),
                                             servings := - 2 \<rparr>),
      (''negfat'', (sample_recipe ''negfat'')\<lparr> nutrition_info := Some (declared 300 20 (- 5) 30),
                     ingredients := Some [\<lparr> ing_name = Some ''Rice'', amount = 100,
                                            unit = Some ''g'' \<rparr>] \<rparr>),
      (''bare'', (sample_recipe ''bare'')\<lparr>
                     ingredients := Some [\<lparr> ing_name = Some ''Rice'', amount = 100,
                                            unit = Some ''g'' \<rparr>,
                                          \<lparr> ing_name = Some ''Sea salt'', amount = 1,
                                            unit = Some ''tsp'' \<rparr>] \<rparr>),
      (''nounit'', (sample_recipe ''nounit'')\<lparr> title := ''Chicken soup'',
                     ingredients := Some [\<lparr> ing_name = Some ''Rice'', amount = 2,
                                            unit = None \<rparr>] \<rparr>)]"

definition sample_store :: Store where
  "sample_store =
     \<lparr> recipe_by_id = (\<lambda>i. Inr (case map_of sample_recipes i of
                                    None \<Rightarrow> \<lparr> qdata = None, qerror = Some ''no rows'' \<rparr>
                                  | Some r \<Rightarrow> \<lparr> qdata = Some r, qerror = None \<rparr>)),
       lookupUSDANutrition = (\<lambda>name.
         if name = ''Rice''
         then Some \<lparr> usda_calories = Some 130, usda_protein = Some 2.7, usda_fat = Some 0.3,
                     usda_carbohydrates = Some 28, usda_fiber = Some 0.4 \<rparr>
         else None) \<rparr>"

text \<open>A store whose every recipe declares 1150 calories, \<open>p\<close> grams of protein and 1150
  grams of fat and of carbohydrates for one serving; a plan of one day with one meal;
  targets of 1000 each.\<close>

definition boundary_store :: "real \<Rightarrow> Store" where
  "boundary_store p =
     \<lparr> recipe_by_id = (\<lambda>i. Inr \<lparr> qdata = Some ((sample_recipe i)
                                      \<lparr> nutrition_info := Some (declared 1150 p 1150 1150) \<rparr>),
                                  qerror = None \<rparr>),
       lookupUSDANutrition = (\<lambda>name. None) \<rparr>"

definition one_meal_plan :: PlanData where
  "one_meal_plan =
     \<lparr> days = [\<lparr> day = ''monday'', date = 0,
                  meals = [\<lparr> slot_meal_type = ''dinner'', recipe_id = ''a'',
                             slot_servings = Some 1, completed = False \<rparr>] \<rparr>],
       total_recipes = 1, unique_recipes = 1, variety_score = 80 \<rparr>"

definition targets_1000 :: NutritionalTargets where
  "targets_1000 =
     \<lparr> daily_calories = 1000, daily_protein = 1000, daily_fat = 1000,
       daily_carbohydrates = 1000, daily_fiber = None \<rparr>"

text \<open>A review answer \<open>{"rating": "9", "feedback": "Good variety"}\<close>, whose rating is a
  string, with the conversions of the language at the two texts involved; and a call of
  the council on a one-meal plan within the threshold that gets this answer.\<close>

definition string_rating_response :: string where
  "string_rating_response =
     ''{'' @ [CHR 0x22] @ ''rating'' @ [CHR 0x22] @ '': '' @ [CHR 0x22] @ ''9'' @ [CHR 0x22] @
     '', '' @ [CHR 0x22] @ ''feedback'' @ [CHR 0x22] @ '': '' @ [CHR 0x22] @ ''Good variety'' @
     [CHR 0x22] @ ''}''"

definition string_rating_parse :: "string \<Rightarrow> js_error + json" where
  "string_rating_parse s =
     (if s = string_rating_response
      then Inr (JObject [(''rating'', JString ''9''), (''feedback'', JString ''Good variety'')])
      else Inl (SyntaxError ''Unexpected token''))"

definition digit_nine :: "string \<Rightarrow> jsnum" where
  "digit_nine s = (if s = ''9'' then Num 9 else NaN)"

definition one_meal_MealPlan :: MealPlan where
  "one_meal_MealPlan =
     \<lparr> plan_ident = ''plan'', user_id = ''user'', week_theme = ''Personalized Weekly Plan'',
       week_start_date = TimeValue 0, plan_data = one_meal_plan, generated_by = ''claude'',
       generation_id = ''gen'' \<rparr>"

definition string_rating_world :: CouncilWorld where
  "string_rating_world =
     \<lparr> cw_store = boundary_store 1150,
       cw_assembly = AssemblySuccess one_meal_MealPlan
         \<lparr> claude_requests = Some 1, tokens_used = Some 500, cost_cents = Some 1 \<rparr>,
       cw_targets = Some targets_1000,
       cw_review = (\<lambda>k. FetchOk string_rating_response (Some 100) (Some 20)),
       cw_JSON_parse = string_rating_parse,
       cw_StringToNumber = digit_nine \<rparr>"

text \<open>A store whose every recipe declares 850 calories, \<open>p\<close> grams of protein and 850
  grams of fat and of carbohydrates for one serving, except that it has no row for the
  id \<open>missing\<close> and that its call for the id \<open>throws\<close> fails with an exception; plans
  with a meal that is not resolved, with a meal whose lookup throws, and with no day;
  the default options with \<open>require_all_recipes\<close> off.\<close>

definition shortfall_store :: "real \<Rightarrow> Store" where
  "shortfall_store p =
     \<lparr> recipe_by_id = (\<lambda>i.
         if i = ''throws'' then Inl (Error ''fetch failed'')
         else if i = ''missing'' then Inr \<lparr> qdata = None, qerror = Some ''no rows'' \<rparr>
         else Inr \<lparr> qdata = Some ((sample_recipe i)
                                  \<lparr> nutrition_info := Some (declared 850 p 850 850) \<rparr>),
                    qerror = None \<rparr>),
       lookupUSDANutrition = (\<lambda>name. None) \<rparr>"

definition two_meal_plan :: PlanData where
  "two_meal_plan =
     \<lparr> days = [\<lparr> day = ''monday'', date = 0,
                  meals = [\<lparr> slot_meal_type = ''lunch'', recipe_id = ''a'',
                             slot_servings = Some 1, completed = False \<rparr>,
                           \<lparr> slot_meal_type = ''dinner'', recipe_id = ''missing'',
                             slot_servings = Some 1, completed = False \<rparr>] \<rparr>],
       total_recipes = 2, unique_recipes = 2, variety_score = 80 \<rparr>"

definition throwing_plan :: PlanData where
  "throwing_plan =
     \<lparr> days = [\<lparr> day = ''monday'', date = 0,
                  meals = [\<lparr> slot_meal_type = ''dinner'', recipe_id = ''throws'',
                             slot_servings = Some 1, completed = False \<rparr>] \<rparr>],
       total_recipes = 1, unique_recipes = 1, variety_score = 80 \<rparr>"

definition empty_plan :: PlanData where
  "empty_plan = \<lparr> days = [], total_recipes = 0, unique_recipes = 0, variety_score = 0 \<rparr>"

definition lenient_options :: ValidationOptions where
  "lenient_options = default_options\<lparr> require_all_recipes := False \<rparr>"

section \<open>Properties\<close>

subsection \<open>Fallback plan\<close>

lemma fallback_planData_days:
  assumes "ctx_week_start_date c = TimeValue t"
    and "- maxTimeValue \<le> t" and "t + 172800000 \<le> maxTimeValue"
  shows "\<exists>pd. fallback_planData pool c = Inr pd \<and>
     map meals (days pd) =
     map (\<lambda>d. map (\<lambda>m. \<lparr> slot_meal_type = fallback_mealTypes ! m,
                            recipe_id = recipe_ident (pool ! ((d * 3 + m) mod length pool)),
                            slot_servings = None, completed = False \<rparr>) [0, 1, 2]) [0, 1, 2]"
proof -
  have "\<bar>t\<bar> \<le> maxTimeValue" "\<bar>t + 86400000\<bar> \<le> maxTimeValue" "\<bar>t + 172800000\<bar> \<le> maxTimeValue"
    using assms(2,3) by (simp_all add: maxTimeValue_def)
  then show ?thesis
    using assms(1)
    by (simp add: fallback_planData_def fallback_day_def fallback_days_def fallback_mealTypes_def
        getTime_def new_Date_def toISOString_def)
qed

lemma less_three_cases: "(n::nat) < 3 \<Longrightarrow> n = 0 \<or> n = 1 \<or> n = 2"
  by arith

text \<open>
  For a context whose start date is a valid \<open>Date\<close> (with the two following days still
  in the range of \<open>Date\<close>): whenever the fallback query returns no error and at least
  one recipe, generateFallbackPlan returns a plan with exactly 3 day-slots, each with
  exactly the 3 meal-slots breakfast, lunch, dinner (9 meal-slots in all, whatever the
  pool size), and the recipe of day index d, meal index m is the pool entry at index
  (d * 3 + m) mod poolSize.
\<close>

lemma fallback_plan_shape:
  assumes "qerror res = None" and "qdata res = Some pool" and "pool \<noteq> []"
    and "ctx_week_start_date context = TimeValue t"
    and "- maxTimeValue \<le> t" and "t + 172800000 \<le> maxTimeValue"
  shows "\<exists>plan. generateFallbackPlan uuid res context = Inr plan \<and>
           length (days (plan_data plan)) = 3 \<and>
           length (concat (map meals (days (plan_data plan)))) = 9 \<and>
           (\<forall>d<3. map slot_meal_type (meals (days (plan_data plan) ! d)) =
                       [''breakfast'', ''lunch'', ''dinner''] \<and>
                   (\<forall>m<3. recipe_id (meals (days (plan_data plan) ! d) ! m) =
                             recipe_ident (pool ! ((d * 3 + m) mod length pool))))"
proof -
  obtain r rs where pool: "pool = r # rs"
    using assms(3) by (cases pool) auto
  from fallback_planData_days [OF assms(4,5,6), of pool]
  obtain pd where pd: "fallback_planData pool context = Inr pd"
    and ms0: "map meals (days pd) =
     map (\<lambda>d. map (\<lambda>m. \<lparr> slot_meal_type = fallback_mealTypes ! m,
                            recipe_id = recipe_ident (pool ! ((d * 3 + m) mod length pool)),
                            slot_servings = None, completed = False \<rparr>) [0, 1, 2]) [0, 1, 2]"
    by blast
  define plan where "plan = \<lparr> plan_ident = uuid, user_id = ctx_user_id context,
      week_theme = ''Getting Started'', week_start_date = ctx_week_start_date context,
      plan_data = pd, generated_by = ''fallback_system'',
      generation_id = ctx_generation_id context \<rparr>"
  have run: "generateFallbackPlan uuid res context = Inr plan"
    using assms(1,2) pd unfolding pool by (simp add: generateFallbackPlan_def plan_def)
  have pdp: "plan_data plan = pd"
    by (simp add: plan_def)
  have ms: "map meals (days (plan_data plan)) =
     map (\<lambda>d. map (\<lambda>m. \<lparr> slot_meal_type = fallback_mealTypes ! m,
                            recipe_id = recipe_ident (pool ! ((d * 3 + m) mod length pool)),
                            slot_servings = None, completed = False \<rparr>) [0, 1, 2]) [0, 1, 2]"
    unfolding pdp by (rule ms0)
  have len: "length (days (plan_data plan)) = 3"
    using arg_cong [OF ms, of length] by simp
  have nine: "length (concat (map meals (days (plan_data plan)))) = 9"
    unfolding ms by simp
  have slots: "map slot_meal_type (meals (days (plan_data plan) ! d)) =
                 [''breakfast'', ''lunch'', ''dinner''] \<and>
               (\<forall>m<3. recipe_id (meals (days (plan_data plan) ! d) ! m) =
                         recipe_ident (pool ! ((d * 3 + m) mod length pool)))"
    if "d < 3" for d
  proof -
    have "meals (days (plan_data plan) ! d) = map meals (days (plan_data plan)) ! d"
      using that len by simp
    also have "\<dots> = map (\<lambda>m. \<lparr> slot_meal_type = fallback_mealTypes ! m,
                            recipe_id = recipe_ident (pool ! ((d * 3 + m) mod length pool)),
                            slot_servings = None, completed = False \<rparr>) [0, 1, 2]"
      unfolding ms using less_three_cases [OF that] by auto
    finally have eq: "meals (days (plan_data plan) ! d) =
        map (\<lambda>m. \<lparr> slot_meal_type = fallback_mealTypes ! m,
                    recipe_id = recipe_ident (pool ! ((d * 3 + m) mod length pool)),
                    slot_servings = None, completed = False \<rparr>) [0, 1, 2]" .
    have "recipe_id (meals (days (plan_data plan) ! d) ! m) =
            recipe_ident (pool ! ((d * 3 + m) mod length pool))" if "m < 3" for m
      unfolding eq using less_three_cases [OF that] by auto
    moreover have "map slot_meal_type (meals (days (plan_data plan) ! d)) =
                 [''breakfast'', ''lunch'', ''dinner'']"
      unfolding eq by (simp add: fallback_mealTypes_def)
    ultimately show ?thesis by blast
  qed
  show ?thesis
    using run len nine slots by blast
qed

lemma fallback_plan_shape_sample:
  "\<exists>plan. generateFallbackPlan ''u''
            \<lparr> qdata = Some [sample_recipe ''a'', sample_recipe ''b''], qerror = None \<rparr>
            sample_context = Inr plan \<and>
          length (days (plan_data plan)) = 3 \<and>
          length (concat (map meals (days (plan_data plan)))) = 9 \<and>
          recipe_id (meals (days (plan_data plan) ! 2) ! 1) = ''b''"
proof -
  let ?pool = "[sample_recipe ''a'', sample_recipe ''b'']"
  let ?res = "\<lparr> qdata = Some ?pool, qerror = None \<rparr>"
  have "qerror ?res = None" "qdata ?res = Some ?pool" "?pool \<noteq> []"
    "ctx_week_start_date sample_context = TimeValue 0"
    "- maxTimeValue \<le> 0" "0 + 172800000 \<le> maxTimeValue"
    by (simp_all add: sample_context_def maxTimeValue_def)
  from fallback_plan_shape [OF this, of "''u''"]
  obtain plan where run: "generateFallbackPlan ''u'' ?res sample_context = Inr plan"
    and len: "length (days (plan_data plan)) = 3"
    and nine: "length (concat (map meals (days (plan_data plan)))) = 9"
    and at: "\<And>d m. d < 3 \<Longrightarrow> m < 3 \<Longrightarrow>
               recipe_id (meals (days (plan_data plan) ! d) ! m) =
               recipe_ident (?pool ! ((d * 3 + m) mod length ?pool))"
    by blast
  have "recipe_id (meals (days (plan_data plan) ! 2) ! 1) =
          recipe_ident (?pool ! ((2 * 3 + 1) mod length ?pool))"
    by (rule at) simp_all
  also have "\<dots> = ''b''"
    by (simp add: sample_recipe_def numeral_2_eq_2 [symmetric])
  finally show ?thesis
    using run len nine by blast
qed

text \<open>A start date that is the Invalid Date, or one so late that a following day
  leaves the range of \<open>Date\<close>, makes \<open>toISOString\<close> throw for every non-empty pool.\<close>

lemma fallback_plan_invalid_date:
  assumes "qerror res = None" and "qdata res = Some pool" and "pool \<noteq> []"
    and "ctx_week_start_date context = InvalidDate"
  shows "generateFallbackPlan uuid res context = Inl (RangeError ''Invalid time value'')"
proof -
  obtain r rs where pool: "pool = r # rs"
    using assms(3) by (cases pool) auto
  have "fallback_planData pool context = Inl (RangeError ''Invalid time value'')"
    using assms(4)
    by (simp add: fallback_planData_def fallback_day_def fallback_days_def getTime_def
        new_Date_def toISOString_def)
  then show ?thesis
    using assms(1,2) unfolding pool by (simp add: generateFallbackPlan_def)
qed

lemma fallback_plan_late_date:
  "generateFallbackPlan ''u''
     \<lparr> qdata = Some [sample_recipe ''a'', sample_recipe ''b''], qerror = None \<rparr>
     (sample_context\<lparr> ctx_week_start_date := TimeValue maxTimeValue \<rparr>) =
   Inl (RangeError ''Invalid time value'')"
  by (simp add: generateFallbackPlan_def fallback_planData_def fallback_day_def
      fallback_days_def getTime_def new_Date_def toISOString_def maxTimeValue_def
      sample_context_def)

text \<open>
  Claim C9. Whenever the fallback pool contains at least one recipe, the generated
  fallback plan has exactly 3 day-slots, each with exactly 3 meal-slots (9 in all), and
  the recipe of day index d, meal index m is the pool entry at index
  (d * 3 + m) mod poolSize.

  The code does that only when the start date of the context is a valid date. The
  request schema turns any \<open>week_start_date\<close> string into \<open>new Date(str)\<close> without
  checking it, so a string that is no date reaches generateFallbackPlan as the Invalid
  Date; there \<open>toISOString()\<close> throws a RangeError while the first day is built, and no
  plan is generated although the pool holds two recipes. The API documentation
  promises that such a request is refused with status 422 before any generation.
\<close>

theorem C9_invalid_date_no_plan:
  "generateFallbackPlan ''u''
     \<lparr> qdata = Some [sample_recipe ''a'', sample_recipe ''b''], qerror = None \<rparr>
     invalid_date_context =
   Inl (RangeError ''Invalid time value'')"
  by (simp add: generateFallbackPlan_def fallback_planData_def fallback_day_def
      fallback_days_def getTime_def new_Date_def toISOString_def invalid_date_context_def)

subsection \<open>Generation controller\<close>

lemma scope_number_retry_count:
  "scope_number st ''retry_count'' = Inl (ReferenceError ''retry_count'')"
  by (simp add: scope_number_def)

lemma accepted_result_throws:
  "accepted_result st c p a = Inl (ReferenceError ''retry_count'')"
  by (simp add: accepted_result_def scope_number_retry_count)

lemma fallback_result_throws:
  "fallback_result st c p = Inl (ReferenceError ''retry_count'')"
  by (simp add: fallback_result_def scope_number_retry_count)

lemma failure_result_throws:
  "failure_result st c e = Inl (ReferenceError ''retry_count'')"
  by (simp add: failure_result_def scope_number_retry_count)

lemma try_round_not_Returned: "try_round w c st \<noteq> (st', Returned r)"
  by (simp add: try_round_def Let_def accepted_result_throws split: sum.split)

text \<open>The loop leaves only through its condition, with the counter at \<open>maxRetries\<close>:
  no round returns.\<close>

lemma retry_loop_exhausts:
  "retryCount st \<le> maxRetries \<Longrightarrow>
   \<exists>st'. retry_loop w c st = (st', None) \<and> retryCount st' = maxRetries"
proof (induction w c st rule: retry_loop.induct)
  case (1 w c st)
  show ?case
  proof (cases "retryCount st < maxRetries")
    case False
    with "1.prems" show ?thesis by simp
  next
    case True
    obtain st1 ex where tr: "try_round w c st = (st1, ex)"
      by (cases "try_round w c st")
    have rc: "retryCount st1 = retryCount st"
      using try_round_retryCount [of st1 ex w c st] tr by simp
    show ?thesis
    proof (cases ex)
      case (Returned r)
      with tr show ?thesis using try_round_not_Returned by blast
    next
      case (Thrown e)
      have "\<exists>st'. retry_loop w c (st1\<lparr>lastError := LE_caught e, retryCount := retryCount st1 + 1\<rparr>)
              = (st', None) \<and> retryCount st' = maxRetries"
        using "1.IH"(1) [OF True tr [symmetric] Thrown] True rc by simp
      then show ?thesis
        using True tr Thrown by (subst retry_loop.simps) simp
    next
      case Fallthrough
      have "\<exists>st'. retry_loop w c (st1\<lparr>retryCount := retryCount st1 + 1\<rparr>)
              = (st', None) \<and> retryCount st' = maxRetries"
        using "1.IH"(2) [OF True tr [symmetric] Fallthrough] True rc by simp
      then show ?thesis
        using True tr Fallthrough by (subst retry_loop.simps) simp
    qed
  qed
qed

text \<open>
  Claim C1. The controller runs at most maxRetries = 3 rounds; when no round succeeds
  it attempts the fallback plan and, the fallback pool being non-empty, returns a
  result with used\_fallback = true, retry\_count = 3 and a non-empty fallback\_reason;
  only a failure of the fallback yields success = false with COMPLETE\_FAILURE.

  The code does not do that. Each of its three result objects is written with the
  shorthand property \<open>retry_count\<close>, an identifier that nothing in scope declares (the
  counter is \<open>retryCount\<close>). Building the accepted result throws inside \<open>try\<close>, which the
  loop counts as a failed round; after three rounds the fallback result throws, the
  \<open>catch\<close> builds the COMPLETE\_FAILURE result, and that throws out of the function.
  So for every world and context the call ends with a ReferenceError and returns no
  result at all.
\<close>

theorem C1_controller_throws:
  "generateMealPlanWithRetry w c = Inl (ReferenceError ''retry_count'')"
proof -
  have "retryCount initial_state \<le> maxRetries"
    by (simp add: initial_state_def)
  from retry_loop_exhausts [OF this, of w c]
  obtain st where "retry_loop w c initial_state = (st, None)"
    by blast
  then show ?thesis
    by (simp add: generateMealPlanWithRetry_def fallback_result_throws failure_result_throws
        split: sum.split)
qed

theorem C1_controller_throws_witness:
  "generateMealPlanWithRetry failing_world sample_context = Inl (ReferenceError ''retry_count'')"
  by (rule C1_controller_throws)

subsection \<open>Final score\<close>

lemma favorite_loop_eq:
  "favorite_loop rs r = (if \<exists>rt \<in> set rs. rr_recipe_id rt = recipe_ident r then 1.3 else 1)"
  by (induction rs) auto

lemma swap_loop_eq:
  "swap_loop ss r = (if \<exists>sw \<in> set ss. original_recipe_id sw = recipe_ident r then 0.7 else 1)"
  by (induction ss) auto

lemma getRecentFavoriteBonus_eq:
  "getRecentFavoriteBonus r blueprint =
     (if \<exists>rt \<in> set (case recent_ratings blueprint of None \<Rightarrow> [] | Some rs \<Rightarrow> rs).
           rating rt = love \<and> rr_recipe_id rt = recipe_ident r
      then 1.3 else 1)"
  by (auto simp: getRecentFavoriteBonus_def favorite_loop_eq split: option.split)

lemma getSwapPenalty_eq:
  "getSwapPenalty r blueprint =
     (if \<exists>sw \<in> set (case recent_swaps blueprint of None \<Rightarrow> [] | Some ss \<Rightarrow> ss).
           original_recipe_id sw = recipe_ident r
      then 0.7 else 1)"
  by (simp add: getSwapPenalty_def swap_loop_eq)

text \<open>
  Claim C3. For every scored candidate, with the criteria that ranking builds for the
  blueprint, the final score is 0.3 * base\_score + 0.4 * personalization\_score,
  multiplied by 1.3 when the recipe itself is rated love in the recent ratings, by 1.1
  when the recipe is premium and the user has premium access, and by 0.7 when the
  recipe is the original recipe of a recent swap, the result clamped to [0, 100].
\<close>

theorem C3_final_score:
  "calculateFinalScore candidate (buildScoringCriteria blueprint preferences) blueprint =
     min 100 (max 0
       ((0.3 * base_score candidate + 0.4 * ai_personalization_score candidate)
        * (if \<exists>rt \<in> set (case recent_ratings blueprint of None \<Rightarrow> [] | Some rs \<Rightarrow> rs).
                rating rt = love \<and> rr_recipe_id rt = recipe_ident (recipe candidate)
           then 1.3 else 1)
        * (if is_premium (recipe candidate) \<and> access_to_premium_content blueprint
           then 1.1 else 1)
        * (if \<exists>sw \<in> set (case recent_swaps blueprint of None \<Rightarrow> [] | Some ss \<Rightarrow> ss).
                original_recipe_id sw = recipe_ident (recipe candidate)
           then 0.7 else 1)))"
  unfolding calculateFinalScore_def Let_def getRecentFavoriteBonus_eq getSwapPenalty_eq
  by (simp add: buildScoringCriteria_def min.commute max.commute algebra_simps)

theorem C3_final_score_witness:
  "calculateFinalScore (sample_candidate ''a'' True 100)
     (buildScoringCriteria sample_blueprint sample_preferences) sample_blueprint = 100 \<and>
   calculateFinalScore (sample_candidate ''b'' False 50)
     (buildScoringCriteria sample_blueprint sample_preferences) sample_blueprint = 35"
  using C3_final_score [of "sample_candidate ''a'' True 100" sample_blueprint sample_preferences]
        C3_final_score [of "sample_candidate ''b'' False 50" sample_blueprint sample_preferences]
  by (simp add: sample_candidate_def sample_blueprint_def sample_recipe_def)

subsection \<open>Diversity selection\<close>

lemma limits [simp]: "cuisineLimit = 6" "mealTypeLimit = 10"
  by (simp_all add: cuisineLimit_def mealTypeLimit_def targetCount_def)

lemma fold_mealTypeCount:
  "fold (\<lambda>mealType cnt. cnt(mealType := Suc (cnt mealType))) ms cnt m =
     cnt m + count_list ms m"
  by (induction ms arbitrary: cnt) auto

lemma counters_agree_init: "counters_agree diverse_init"
  by (simp add: counters_agree_def diverse_init_def count_or_zero_def
      cuisine_occurrences_def mealType_occurrences_def)

lemma selected_accept [simp]: "selected (diverse_accept st x) = selected st @ [x]"
  by (simp add: diverse_accept_def)

lemma counters_agree_accept:
  assumes "counters_agree st"
  shows "counters_agree (diverse_accept st x)"
proof -
  have meal: "mealTypeCount (diverse_accept st x) m =
                mealType_occurrences m (selected (diverse_accept st x))" for m
    using assms
    by (simp add: counters_agree_def diverse_accept_def fold_mealTypeCount
        mealType_occurrences_def)
  have cuis: "count_or_zero (cuisineCount (diverse_accept st x)) c =
                Count (cuisine_occurrences c (selected (diverse_accept st x)))"
    if c: "c \<noteq> []" "c \<notin> set object_prototype_keys" for c
  proof -
    have old: "count_or_zero (cuisineCount st) c = Count (cuisine_occurrences c (selected st))"
      using assms c by (simp add: counters_agree_def)
    show ?thesis
    proof (cases "cuisine_type (recipe x)")
      case None
      then show ?thesis
        using old by (simp add: diverse_accept_def cuisine_occurrences_def)
    next
      case (Some c')
      show ?thesis
      proof (cases "c' = c")
        case True
        then show ?thesis
          using old Some c
          by (simp add: diverse_accept_def cuisine_occurrences_def count_or_zero_def)
      next
        case False
        then show ?thesis
          using old Some
          by (auto simp: diverse_accept_def cuisine_occurrences_def count_or_zero_def)
      qed
    qed
  qed
  show ?thesis
    unfolding counters_agree_def using meal cuis by blast
qed

lemma within_caps_at_append:
  "i < length sel \<Longrightarrow> within_caps_at (sel @ [x]) i = within_caps_at sel i"
  by (simp add: within_caps_at_def nth_append split: option.split)

lemma within_caps_at_new:
  assumes "counters_agree st" and "\<not> skipForDiversity st x"
  shows "within_caps_at (selected st @ [x]) (length (selected st))"
proof -
  have meal: "list_all (\<lambda>m. mealType_occurrences m (selected st) < mealTypeLimit)
                (meal_type (recipe x))"
    using assms by (auto simp: skipForDiversity_def counters_agree_def list_all_iff list_ex_iff)
  have cuis: "c = [] \<or> c \<in> set object_prototype_keys \<or>
              cuisine_occurrences c (selected st) < cuisineLimit"
    if "cuisine_type (recipe x) = Some c" for c
  proof (cases "c = [] \<or> c \<in> set object_prototype_keys")
    case True
    then show ?thesis by blast
  next
    case False
    then have "count_or_zero (cuisineCount st) c = Count (cuisine_occurrences c (selected st))"
      using assms(1) by (simp add: counters_agree_def)
    moreover have "\<not> counter_ge (count_or_zero (cuisineCount st) c) cuisineLimit"
      using assms(2) that False by (simp add: skipForDiversity_def)
    ultimately show ?thesis by simp
  qed
  show ?thesis
    using meal cuis by (simp add: within_caps_at_def split: option.split)
qed

lemma loop_invariant_accept:
  assumes "loop_invariant st"
    and "\<not> (skipForDiversity st x \<and> length (selected st) > 15)"
  shows "loop_invariant (diverse_accept st x)"
proof -
  have agree: "counters_agree st"
    using assms(1) by (simp add: loop_invariant_def)
  have "within_caps_at (selected st @ [x]) i"
    if i: "16 \<le> i" "i < length (selected st @ [x])" for i
  proof (cases "i < length (selected st)")
    case True
    then show ?thesis
      using assms(1) i by (simp add: loop_invariant_def within_caps_at_append)
  next
    case False
    then have eq: "i = length (selected st)"
      using i by simp
    then have "\<not> skipForDiversity st x"
      using assms(2) i by simp
    then show ?thesis
      unfolding eq by (rule within_caps_at_new [OF agree])
  qed
  then show ?thesis
    using counters_agree_accept [OF agree] by (simp add: loop_invariant_def)
qed

lemma diverse_loop_invariant:
  "loop_invariant st \<Longrightarrow> loop_invariant (diverse_loop cs st)"
  by (induction cs arbitrary: st) (auto intro: loop_invariant_accept)

lemma diverse_loop_length:
  "length (selected st) \<le> targetCount \<Longrightarrow>
   length (selected (diverse_loop cs st)) \<le> targetCount"
  by (induction cs arbitrary: st) auto

lemma diverse_loop_prefix:
  "take (length (selected st)) (selected (diverse_loop cs st)) = selected st"
proof (induction cs arbitrary: st)
  case Nil
  then show ?case by simp
next
  case (Cons x cs)
  have "take (length (selected st)) (selected (diverse_loop cs (diverse_accept st x))) =
          selected st"
  proof -
    have "take (length (selected st)) (selected (diverse_loop cs (diverse_accept st x))) =
            take (length (selected st))
              (take (length (selected (diverse_accept st x)))
                 (selected (diverse_loop cs (diverse_accept st x))))"
      by (simp add: min_def)
    also have "\<dots> = take (length (selected st)) (selected st @ [x])"
      using Cons.IH [of "diverse_accept st x"] by simp
    finally show ?thesis by simp
  qed
  then show ?case
    using Cons.IH [of st] by simp
qed

lemma diverse_loop_first_16:
  "take 16 (selected (diverse_loop cs st)) = take 16 (selected st @ cs)"
proof (induction cs arbitrary: st)
  case Nil
  then show ?case by simp
next
  case (Cons x cs)
  show ?case
  proof (cases "length (selected st) \<ge> 16")
    case True
    have "take 16 (selected (diverse_loop (x # cs) st)) =
            take 16 (take (length (selected st)) (selected (diverse_loop (x # cs) st)))"
      using True by (simp add: min_def)
    also have "\<dots> = take 16 (selected st)"
      by (simp only: diverse_loop_prefix)
    finally show ?thesis
      using True by simp
  next
    case False
    then have "diverse_loop (x # cs) st = diverse_loop cs (diverse_accept st x)"
      by (simp add: targetCount_def)
    then show ?thesis
      using Cons.IH [of "diverse_accept st x"] by simp
  qed
qed
lemma selectDiverseSet_seven_italian: "selectDiverseSet seven_italian = seven_italian"
  by (simp add: selectDiverseSet_def seven_italian_def diverse_init_def diverse_accept_def
      skipForDiversity_def targetCount_def)

text \<open>
  Claim C4, as stated, fails: while fewer than 15 candidates have been accepted the
  loop accepts every candidate, also one whose cuisine has reached the cap. Of seven
  Italian candidates all seven are accepted, the seventh with six Italian candidates
  (the cap) already selected.
\<close>

theorem C4_caps_not_enforced_early:
  "length (selectDiverseSet seven_italian) = 7 \<and>
   cuisine_type (recipe (selectDiverseSet seven_italian ! 6)) = Some ''italian'' \<and>
   cuisine_occurrences ''italian'' (take 6 (selectDiverseSet seven_italian)) = cuisineLimit \<and>
   \<not> within_caps_at (selectDiverseSet seven_italian) 6"
  unfolding selectDiverseSet_seven_italian
  by (simp add: seven_italian_def within_caps_at_def cuisine_occurrences_def
      cuisine_candidate_def object_prototype_keys_def)

text \<open>
  Claim C4, amended. The selection never holds more than targetCount = 30 candidates.
  The caps are not enforced while at most 15 candidates have been accepted: the first
  16 candidates in score order are all accepted. Once more than 15 have been accepted,
  a candidate is accepted only within the caps: fewer than ceil(30/5) = 6 accepted
  candidates of its cuisine (for a cuisine name that is not an inherited member name
  of the counting object) and, for each of its meal types, fewer than ceil(30/3) = 10
  accepted listings.
\<close>

theorem C4_caps_after_sixteen:
  "length (selectDiverseSet candidates) \<le> targetCount \<and>
   take 16 (selectDiverseSet candidates) = take 16 candidates \<and>
   (\<forall>i. 16 \<le> i \<and> i < length (selectDiverseSet candidates) \<longrightarrow>
        within_caps_at (selectDiverseSet candidates) i)"
proof -
  have "loop_invariant diverse_init"
    by (simp add: loop_invariant_def counters_agree_init) (simp add: diverse_init_def)
  then have "loop_invariant (diverse_loop candidates diverse_init)"
    by (rule diverse_loop_invariant)
  moreover have "length (selected (diverse_loop candidates diverse_init)) \<le> targetCount"
    by (rule diverse_loop_length) (simp add: diverse_init_def)
  moreover have "take 16 (selected (diverse_loop candidates diverse_init)) = take 16 candidates"
    using diverse_loop_first_16 [of candidates diverse_init] by (simp add: diverse_init_def)
  ultimately show ?thesis
    by (simp add: selectDiverseSet_def loop_invariant_def)
qed

lemma selectDiverseSet_seventeen:
  "selectDiverseSet (sixteen_italian @ [cuisine_candidate ''x'' ''italian'',
                                        cuisine_candidate ''y'' ''thai'']) =
     sixteen_italian @ [cuisine_candidate ''y'' ''thai'']"
  by (simp add: selectDiverseSet_def sixteen_italian_def diverse_init_def diverse_accept_def
      skipForDiversity_def targetCount_def count_or_zero_def cuisine_candidate_def
      sample_recipe_def object_prototype_keys_def)

theorem C4_caps_after_sixteen_witness:
  "within_caps_at (sixteen_italian @ [cuisine_candidate ''y'' ''thai'']) 16 \<and>
   selectDiverseSet (sixteen_italian @ [cuisine_candidate ''x'' ''italian'',
                                        cuisine_candidate ''y'' ''thai'']) =
     sixteen_italian @ [cuisine_candidate ''y'' ''thai'']"
  using C4_caps_after_sixteen [of "sixteen_italian @ [cuisine_candidate ''x'' ''italian'',
                                        cuisine_candidate ''y'' ''thai'']"]
  unfolding selectDiverseSet_seventeen
  by (simp add: sixteen_italian_def)

subsection \<open>Partial scorer output\<close>

lemma regex_match_empty_scores:
  "regex_match_braces empty_scores_response =
     Some (''{'' @ [CHR 0x22] @ ''recipe_scores'' @ [CHR 0x22] @ '': {}}'')"
  by (simp add: regex_match_braces_def empty_scores_response_def)

lemma parse_seventeen:
  "parseAIScoringResponse empty_scores_parse empty_scores_response seventeen_recipes =
     \<lparr> pr_success = True, pr_candidates = Some (map unscored_candidate seventeen_recipes),
       pr_error = None \<rparr>"
  unfolding parseAIScoringResponse_def regex_match_empty_scores
  by (simp add: empty_scores_parse_def candidate_of_def seventeen_recipes_def
      italian_recipe_def sample_recipe_def object_prototype_keys_def)

lemma unscored_final_score:
  "calculateFinalScore (unscored_candidate (italian_recipe i))
     (buildScoringCriteria plain_blueprint sample_preferences) plain_blueprint = 35"
  by (simp add: calculateFinalScore_def unscored_candidate_def getRecentFavoriteBonus_def
      getSwapPenalty_def plain_blueprint_def italian_recipe_def sample_recipe_def)

lemma rank_seventeen:
  "map (\<lambda>c. recipe_ident (recipe c))
     (rankAndSelectFinalCandidates (map unscored_candidate seventeen_recipes)
        plain_blueprint sample_preferences) =
   [''r01'', ''r02'', ''r03'', ''r04'', ''r05'', ''r06'', ''r07'', ''r08'',
    ''r09'', ''r10'', ''r11'', ''r12'', ''r13'', ''r14'', ''r15'', ''r16'']"
  unfolding rankAndSelectFinalCandidates_def Let_def seventeen_recipes_def list.map
    unscored_final_score
  by (simp add: selectDiverseSet_def diverse_init_def diverse_accept_def
      skipForDiversity_def targetCount_def count_or_zero_def unscored_candidate_def
      italian_recipe_def sample_recipe_def object_prototype_keys_def)
lemma diverse_loop_length_le:
  "length (selected (diverse_loop cs st)) \<le> length (selected st) + length cs"
proof (induction cs arbitrary: st)
  case Nil
  then show ?case by simp
next
  case (Cons x cs)
  show ?case
    using Cons.IH [of st] Cons.IH [of "diverse_accept st x"] by simp
qed

lemma selectDiverseSet_short:
  assumes "length xs \<le> 16"
  shows "selectDiverseSet xs = xs"
proof -
  have len: "length (selectDiverseSet xs) \<le> 16"
    using diverse_loop_length_le [of xs diverse_init] assms
    by (simp add: selectDiverseSet_def diverse_init_def)
  have "take 16 (selectDiverseSet xs) = take 16 xs"
    using diverse_loop_first_16 [of xs diverse_init]
    by (simp add: selectDiverseSet_def diverse_init_def)
  then show ?thesis
    using len assms by simp
qed

lemma rankAndSelect_short:
  assumes "length cs \<le> 16" and "c \<in> set cs"
  shows "c\<lparr> final_score := calculateFinalScore c (buildScoringCriteria blueprint preferences)
                              blueprint \<rparr>
           \<in> set (rankAndSelectFinalCandidates cs blueprint preferences)"
  using assms by (simp add: rankAndSelectFinalCandidates_def Let_def selectDiverseSet_short)

text \<open>
  Claim C5, as stated, fails: selection does not always include the unscored recipe,
  and the final score of an unscored candidate is not 50. With seventeen Italian
  recipes in the working set and a response that scores none of them, parsing succeeds
  with the default candidates, ranking gives each the final score 35, and the
  diversity selection returns the first sixteen: recipe \<open>x\<close> is not selected.
\<close>

theorem C5_unscored_recipe_dropped:
  "parseAIScoringResponse empty_scores_parse empty_scores_response seventeen_recipes =
     \<lparr> pr_success = True, pr_candidates = Some (map unscored_candidate seventeen_recipes),
       pr_error = None \<rparr> \<and>
   recipe_ident (seventeen_recipes ! 16) = ''x'' \<and>
   map (\<lambda>c. recipe_ident (recipe c))
     (rankAndSelectFinalCandidates (map unscored_candidate seventeen_recipes)
        plain_blueprint sample_preferences) =
   [''r01'', ''r02'', ''r03'', ''r04'', ''r05'', ''r06'', ''r07'', ''r08'',
    ''r09'', ''r10'', ''r11'', ''r12'', ''r13'', ''r14'', ''r15'', ''r16''] \<and>
   calculateFinalScore (unscored_candidate (seventeen_recipes ! 16))
     (buildScoringCriteria plain_blueprint sample_preferences) plain_blueprint = 35"
proof -
  have "seventeen_recipes ! 16 = italian_recipe ''x''"
    by (simp add: seventeen_recipes_def)
  then show ?thesis
    using parse_seventeen rank_seventeen unscored_final_score [of "''x''"]
    by (simp add: italian_recipe_def sample_recipe_def)
qed

text \<open>
  Claim C5, amended. When the scorer's response holds a JSON object with a
  recipe\_scores object, parseAIScoringResponse succeeds with one candidate per recipe
  of the working set, in order, and a recipe without an entry (its id not being an
  inherited member name) gets base\_score 50, ai\_personalization\_score 50,
  final\_score 50, no match reasons and the penalty reason 'No AI score available':
  missing entries never make parsing fail. Ranking then replaces the final score by
  the computed one, and the selection keeps the candidate whenever the working set has
  at most 16 recipes.
\<close>

theorem C5_unscored_recipe_default:
  assumes "regex_match_braces aiResponse = Some jsonMatch"
    and "JSON_parse jsonMatch = Inr payload"
    and "recipe_scores payload = Some recipeScores"
    and "i < length recipes"
    and "recipeScores (recipe_ident (recipes ! i)) = None"
    and "recipe_ident (recipes ! i) \<notin> set object_prototype_keys"
  shows "\<exists>cs. parseAIScoringResponse JSON_parse aiResponse recipes =
              \<lparr> pr_success = True, pr_candidates = Some cs, pr_error = None \<rparr> \<and>
            length cs = length recipes \<and>
            cs ! i = \<lparr> recipe = recipes ! i, base_score = 50, ai_personalization_score = 50,
                       final_score = 50, match_reasons = [],
                       penalty_reasons = [''No AI score available''] \<rparr> \<and>
            (length recipes \<le> 16 \<longrightarrow>
               (cs ! i)\<lparr> final_score := calculateFinalScore (cs ! i)
                             (buildScoringCriteria blueprint preferences) blueprint \<rparr>
                 \<in> set (rankAndSelectFinalCandidates cs blueprint preferences))"
proof -
  let ?cs = "map (candidate_of recipeScores) recipes"
  have run: "parseAIScoringResponse JSON_parse aiResponse recipes =
               \<lparr> pr_success = True, pr_candidates = Some ?cs, pr_error = None \<rparr>"
    using assms(1-3) by (simp add: parseAIScoringResponse_def)
  have at: "?cs ! i = \<lparr> recipe = recipes ! i, base_score = 50, ai_personalization_score = 50,
                       final_score = 50, match_reasons = [],
                       penalty_reasons = [''No AI score available''] \<rparr>"
    using assms(4-6) by (simp add: candidate_of_def unscored_candidate_def)
  have "(?cs ! i)\<lparr> final_score := calculateFinalScore (?cs ! i)
                             (buildScoringCriteria blueprint preferences) blueprint \<rparr>
                 \<in> set (rankAndSelectFinalCandidates ?cs blueprint preferences)"
    if "length recipes \<le> 16"
  proof (rule rankAndSelect_short)
    show "length ?cs \<le> 16" using that by simp
    show "?cs ! i \<in> set ?cs" by (rule nth_mem) (simp add: assms(4))
  qed
  with run at show ?thesis
    by (intro exI [of _ ?cs]) simp
qed

theorem C5_unscored_recipe_default_witness:
  "\<exists>cs. parseAIScoringResponse empty_scores_parse empty_scores_response
            [italian_recipe ''a'', italian_recipe ''b''] =
          \<lparr> pr_success = True, pr_candidates = Some cs, pr_error = None \<rparr> \<and>
        length cs = 2 \<and>
        cs ! 1 = unscored_candidate (italian_recipe ''b'') \<and>
        (unscored_candidate (italian_recipe ''b''))\<lparr> final_score := 35 \<rparr>
          \<in> set (rankAndSelectFinalCandidates cs plain_blueprint sample_preferences)"
proof -
  let ?recipes = "[italian_recipe ''a'', italian_recipe ''b'']"
  have "recipe_ident (?recipes ! 1) \<notin> set object_prototype_keys"
    by (simp add: italian_recipe_def sample_recipe_def object_prototype_keys_def)
  from C5_unscored_recipe_default [OF regex_match_empty_scores, of empty_scores_parse
      "\<lparr> recipe_scores = Some (\<lambda>_. None) \<rparr>" "\<lambda>_. None" 1 ?recipes
      plain_blueprint sample_preferences, OF _ _ _ _ this]
  obtain cs where
    "parseAIScoringResponse empty_scores_parse empty_scores_response ?recipes =
       \<lparr> pr_success = True, pr_candidates = Some cs, pr_error = None \<rparr>"
    "length cs = length ?recipes"
    "cs ! 1 = unscored_candidate (?recipes ! 1)"
    "(cs ! 1)\<lparr> final_score := calculateFinalScore (cs ! 1)
                   (buildScoringCriteria plain_blueprint sample_preferences)
                   plain_blueprint \<rparr>
       \<in> set (rankAndSelectFinalCandidates cs plain_blueprint sample_preferences)"
    by (auto simp: empty_scores_parse_def unscored_candidate_def)
  then show ?thesis
    using unscored_final_score [of "''b''"] by (intro exI [of _ cs]) simp
qed

text \<open>The candidates of a successful parse are those of the working set, in its order.\<close>

lemma parse_candidates_in_order:
  assumes "regex_match_braces aiResponse = Some jsonMatch"
    and "JSON_parse jsonMatch = Inr payload"
    and "recipe_scores payload = Some recipeScores"
  shows "\<exists>cs. parseAIScoringResponse JSON_parse aiResponse recipes =
              \<lparr> pr_success = True, pr_candidates = Some cs, pr_error = None \<rparr> \<and>
            map recipe cs = recipes"
proof -
  have "recipe (candidate_of recipeScores r) = r" for r
    by (simp add: candidate_of_def unscored_candidate_def scored_candidate_def
        split: option.split)
  then have "map recipe (map (candidate_of recipeScores) recipes) = recipes"
    by (simp add: comp_def)
  then show ?thesis
    using assms by (simp add: parseAIScoringResponse_def)
qed

subsection \<open>Unit conversion\<close>

lemma lower_char_not_upper: "lower_char ch \<notin> set ''ABCDEFGHIJKLMNOPQRSTUVWXYZ''"
proof (cases "ch \<in> set ''ABCDEFGHIJKLMNOPQRSTUVWXYZ''")
  case True
  then show ?thesis
    by (auto simp: lower_char_def)
next
  case False
  then have "map_of (zip ''ABCDEFGHIJKLMNOPQRSTUVWXYZ'' ''abcdefghijklmnopqrstuvwxyz'') ch = None"
    by simp
  with False show ?thesis
    by (simp add: lower_char_def)
qed

lemma toLowerCase_no_upper:
  "ch \<in> set (toLowerCase s) \<Longrightarrow> ch \<notin> set ''ABCDEFGHIJKLMNOPQRSTUVWXYZ''"
  using lower_char_not_upper by (auto simp: toLowerCase_def)

text \<open>After \<open>toLowerCase\<close> only the two all-lowercase inherited names can be hit.\<close>

lemma toLowerCase_inherited:
  assumes "toLowerCase u \<in> set object_prototype_keys"
  shows "toLowerCase u = ''constructor'' \<or> toLowerCase u = ''__proto__''"
proof -
  have no: "\<And>ch. ch \<in> set (toLowerCase u) \<Longrightarrow> ch \<notin> set ''GSPELO''"
    using toLowerCase_no_upper [of _ u] by auto
  from assms consider
      "toLowerCase u = ''constructor''" | "toLowerCase u = ''__proto__''"
    | "toLowerCase u = ''__defineGetter__''" | "toLowerCase u = ''__defineSetter__''"
    | "toLowerCase u = ''hasOwnProperty''" | "toLowerCase u = ''__lookupGetter__''"
    | "toLowerCase u = ''__lookupSetter__''" | "toLowerCase u = ''isPrototypeOf''"
    | "toLowerCase u = ''propertyIsEnumerable''" | "toLowerCase u = ''toString''"
    | "toLowerCase u = ''valueOf''" | "toLowerCase u = ''toLocaleString''"
    by (auto simp: object_prototype_keys_def)
  then show ?thesis
  proof cases
    case 3 with no [of "CHR ''G''"] show ?thesis by simp
  next
    case 4 with no [of "CHR ''S''"] show ?thesis by simp
  next
    case 5 with no [of "CHR ''P''"] show ?thesis by simp
  next
    case 6 with no [of "CHR ''G''"] show ?thesis by simp
  next
    case 7 with no [of "CHR ''S''"] show ?thesis by simp
  next
    case 8 with no [of "CHR ''P''"] show ?thesis by simp
  next
    case 9 with no [of "CHR ''E''"] show ?thesis by simp
  next
    case 10 with no [of "CHR ''S''"] show ?thesis by simp
  next
    case 11 with no [of "CHR ''O''"] show ?thesis by simp
  next
    case 12 with no [of "CHR ''L''"] show ?thesis by simp
  qed simp_all
qed

lemma convert_with_unrecognized:
  assumes "toLowerCase u \<notin> fst ` set conversions"
    and "toLowerCase u \<noteq> ''constructor''" and "toLowerCase u \<noteq> ''__proto__''"
  shows "convert_with conversions amt u = Num (amt * 100)"
proof -
  have "map_of conversions (toLowerCase u) = None"
    using assms(1) by (simp add: map_of_eq_None_iff)
  moreover have "toLowerCase u \<notin> set object_prototype_keys"
    using toLowerCase_inherited [of u] assms(2,3) by blast
  ultimately show ?thesis
    by (simp add: convert_with_def js_get_def)
qed
text \<open>
  Claim C8, as stated, fails. The table of the council's convertToStandardAmount has no
  entry for milliliter or liter (nor for the spelled-out kilogram, ounce, tablespoon,
  teaspoon): there 250 ml are converted like an unrecognized unit, to 25000 g, where
  the validator's convertToGrams gives 250 g. And a unit named like an inherited member
  of the table object is not mapped to amount * 100: the result is NaN.
\<close>

theorem C8_council_table_lacks_milliliter:
  "map_of conversions_council ''ml'' = None \<and>
   map_of conversions_council ''liter'' = None \<and>
   convertToStandardAmount 250 ''ml'' = Num 25000 \<and>
   convertToGrams 250 ''ml'' = Num 250 \<and>
   convertToGrams 2 ''constructor'' = NaN"
  by (simp add: convertToStandardAmount_def convertToGrams_def convert_with_def js_get_def
      conversions_council_def conversions_validator_def toLowerCase_def lower_char_def
      object_prototype_keys_def)

text \<open>
  Claim C8, amended. The validator's convertToGrams maps gram, kilogram, ounce, pound,
  cup, tablespoon, teaspoon, milliliter and liter (under the names of its table) to
  fixed multipliers; the council's convertToStandardAmount maps g/gram, kg, oz,
  lb/pound, cup, tbsp and tsp only. Both return amount * 100 for every unit whose
  lower-cased name is not in their table (the names constructor and \_\_proto\_\_
  apart), and neither aborts.
\<close>

theorem C8_unit_conversion:
  "map (convertToGrams amt)
     [''g'', ''gram'', ''kg'', ''kilogram'', ''oz'', ''ounce'', ''lb'', ''pound'', ''cup'',
      ''tbsp'', ''tablespoon'', ''tsp'', ''teaspoon'', ''ml'', ''milliliter'', ''l'', ''liter''] =
   map Num
     [amt, amt, amt * 1000, amt * 1000, amt * 28.35, amt * 28.35, amt * 453.59, amt * 453.59,
      amt * 240, amt * 15, amt * 15, amt * 5, amt * 5, amt, amt, amt * 1000, amt * 1000] \<and>
   map (convertToStandardAmount amt)
     [''g'', ''gram'', ''kg'', ''oz'', ''lb'', ''pound'', ''cup'', ''tbsp'', ''tsp''] =
   map Num
     [amt, amt, amt * 1000, amt * 28.35, amt * 453.59, amt * 453.59, amt * 240, amt * 15,
      amt * 5] \<and>
   (toLowerCase u \<notin> fst ` set conversions_validator \<and>
    toLowerCase u \<noteq> ''constructor'' \<and> toLowerCase u \<noteq> ''__proto__'' \<longrightarrow>
      convertToGrams amt u = Num (amt * 100)) \<and>
   (toLowerCase u \<notin> fst ` set conversions_council \<and>
    toLowerCase u \<noteq> ''constructor'' \<and> toLowerCase u \<noteq> ''__proto__'' \<longrightarrow>
      convertToStandardAmount amt u = Num (amt * 100))"
proof -
  have v: "map (convertToGrams amt)
     [''g'', ''gram'', ''kg'', ''kilogram'', ''oz'', ''ounce'', ''lb'', ''pound'', ''cup'',
      ''tbsp'', ''tablespoon'', ''tsp'', ''teaspoon'', ''ml'', ''milliliter'', ''l'', ''liter''] =
   map Num
     [amt, amt, amt * 1000, amt * 1000, amt * 28.35, amt * 28.35, amt * 453.59, amt * 453.59,
      amt * 240, amt * 15, amt * 15, amt * 5, amt * 5, amt, amt, amt * 1000, amt * 1000]"
    by (simp add: convertToGrams_def convert_with_def js_get_def conversions_validator_def
        toLowerCase_def lower_char_def)
  have c: "map (convertToStandardAmount amt)
     [''g'', ''gram'', ''kg'', ''oz'', ''lb'', ''pound'', ''cup'', ''tbsp'', ''tsp''] =
   map Num
     [amt, amt, amt * 1000, amt * 28.35, amt * 453.59, amt * 453.59, amt * 240, amt * 15,
      amt * 5]"
    by (simp add: convertToStandardAmount_def convert_with_def js_get_def
        conversions_council_def toLowerCase_def lower_char_def)
  show ?thesis
    using v c convert_with_unrecognized [of u conversions_validator amt]
      convert_with_unrecognized [of u conversions_council amt]
    unfolding convertToGrams_def [symmetric] convertToStandardAmount_def [symmetric]
    by blast
qed

theorem C8_unit_conversion_witness:
  "convertToGrams 2 ''Pinch'' = Num 200 \<and> convertToStandardAmount 2 ''Pinch'' = Num 200 \<and>
   convertToGrams 2 ''cup'' = Num 480"
proof -
  have 1: "toLowerCase ''Pinch'' \<notin> fst ` set conversions_validator \<and>
        toLowerCase ''Pinch'' \<noteq> ''constructor'' \<and> toLowerCase ''Pinch'' \<noteq> ''__proto__''"
    by (simp add: toLowerCase_def lower_char_def conversions_validator_def)
  have 2: "toLowerCase ''Pinch'' \<notin> fst ` set conversions_council \<and>
        toLowerCase ''Pinch'' \<noteq> ''constructor'' \<and> toLowerCase ''Pinch'' \<noteq> ''__proto__''"
    by (simp add: toLowerCase_def lower_char_def conversions_council_def)
  show ?thesis
    using C8_unit_conversion [of 2 "''Pinch''"] 1 2 by simp
qed

subsection \<open>Nutrient resolution\<close>



lemma sample_store_found:
  "map_of sample_recipes i = Some r \<Longrightarrow> found_recipe (recipe_by_id sample_store i) = Some r"
  by (simp add: found_recipe_def sample_store_def)












text \<open>A meal slot for which resolution returns nothing is reported as missing data by
  the loop of validatePlan.\<close>

lemma unresolved_meal_reported:
  assumes "calculateMealNutrition store (recipe_id meal)
             (case slot_servings meal of None \<Rightarrow> 1 | Some s \<Rightarrow> or_one s)
             (use_usda_fallback options) = None"
  shows "missingData (meal_step store options meal st) =
           missingData st @ [''Recipe '' @ recipe_id meal]"
  using assms by (simp add: meal_step_def)

subsection \<open>Serving multiplier\<close>

lemma or_one_nonzero: "or_one x \<noteq> 0"
  by (simp add: or_one_def)

lemma Math_round_int [simp]: "Math_round (of_int n) = of_int n"
  by (simp add: Math_round_def)

lemma Math_round_numeral [simp]: "Math_round (numeral k) = numeral k"
  using Math_round_int [of "numeral k"] by simp

lemma Math_round_neg_numeral [simp]: "Math_round (- numeral k) = - numeral k"
  using Math_round_int [of "- numeral k"] by simp

lemma Math_round_zero [simp]: "Math_round 0 = 0"
  using Math_round_int [of 0] by simp

lemma zero_recipe:
  "map_of sample_recipes ''zero'' =
     Some ((sample_recipe ''zero'')\<lparr> nutrition_info := Some (declared 300 20 10 30),
                                     servings := 0 \<rparr>)"
  by (simp add: sample_recipes_def)

lemma minus_recipe:
  "map_of sample_recipes ''minus'' =
     Some ((sample_recipe ''minus'')\<lparr> nutrition_info := Some (declared 300 20 10 30),
                                      servings := - 2 \<rparr>)"
  by (simp add: sample_recipes_def)

lemma calculateMealNutrition_reliable:
  assumes "found_recipe (recipe_by_id store recipeId) = Some r"
    and "nutrition_info r = Some ni" and "isReliableNutrition_validator ni"
  shows "calculateMealNutrition store recipeId servs flag =
     Some \<lparr> mn_recipe_id = recipeId, mn_recipe_title = title r,
            mn_nutrition =
              \<lparr> calories = Math_round (calories ni * servingMultiplier_validator servs r),
                protein = Math_round ((protein ni * servingMultiplier_validator servs r) * 10) / 10,
                fat = Math_round ((fat ni * servingMultiplier_validator servs r) * 10) / 10,
                carbohydrates =
                  Math_round ((carbohydrates ni * servingMultiplier_validator servs r) * 10) / 10,
                fiber = Some (Math_round
                  ((num_or_zero (fiber ni) * servingMultiplier_validator servs r) * 10) / 10) \<rparr>,
            calculation_method = spoonacular \<rparr>"
  using assms by (simp add: calculateMealNutrition_def resolve_nutrition_def Let_def num_or_zero_def)

text \<open>
  The divisor of the serving multiplier, \<open>recipe.servings || 1\<close>, is never zero. For
  every recipe with declared servings 0 and any requested serving count, the multiplier
  is the requested count itself, in the validator and in the council (servings 0 is
  treated as 1), and whatever tier resolves the recipe, the totals are the resolved
  values times the requested count, rounded.
\<close>

lemma zero_servings_as_one:
  assumes "found_recipe (recipe_by_id store recipeId) = Some r" and "servings r = 0"
  shows "or_one (servings r') \<noteq> 0 \<and>
         servingMultiplier_validator servs r = servs \<and>
         servingMultiplier_council meal r =
           (case slot_servings meal of None \<Rightarrow> 1 | Some s \<Rightarrow> or_one s) \<and>
         (\<forall>nutrition how.
            resolve_nutrition store r flag = Some (nutrition, how) \<longrightarrow>
            calculateMealNutrition store recipeId servs flag =
              Some \<lparr> mn_recipe_id = recipeId, mn_recipe_title = title r,
                     mn_nutrition =
                       \<lparr> calories = Math_round (calories nutrition * servs),
                         protein = Math_round ((protein nutrition * servs) * 10) / 10,
                         fat = Math_round ((fat nutrition * servs) * 10) / 10,
                         carbohydrates = Math_round ((carbohydrates nutrition * servs) * 10) / 10,
                         fiber = Some (Math_round
                           ((num_or_zero (fiber nutrition) * servs) * 10) / 10) \<rparr>,
                     calculation_method = how \<rparr>)"
proof -
  have v: "servingMultiplier_validator servs r = servs"
    using assms(2) by (simp add: servingMultiplier_validator_def or_one_def)
  have c: "servingMultiplier_council meal r =
           (case slot_servings meal of None \<Rightarrow> 1 | Some s \<Rightarrow> or_one s)"
    using assms(2) by (simp add: servingMultiplier_council_def or_one_def)
  have m: "calculateMealNutrition store recipeId servs flag =
              Some \<lparr> mn_recipe_id = recipeId, mn_recipe_title = title r,
                     mn_nutrition =
                       \<lparr> calories = Math_round (calories nutrition * servs),
                         protein = Math_round ((protein nutrition * servs) * 10) / 10,
                         fat = Math_round ((fat nutrition * servs) * 10) / 10,
                         carbohydrates = Math_round ((carbohydrates nutrition * servs) * 10) / 10,
                         fiber = Some (Math_round
                           ((num_or_zero (fiber nutrition) * servs) * 10) / 10) \<rparr>,
                     calculation_method = how \<rparr>"
    if "resolve_nutrition store r flag = Some (nutrition, how)" for nutrition how
    using assms(1) that by (simp add: calculateMealNutrition_def Let_def v)
  show ?thesis
    using or_one_nonzero [of "servings r'"] v c m by blast
qed

lemma zero_servings_sample:
  "calculateMealNutrition sample_store ''zero'' 2 True =
     Some \<lparr> mn_recipe_id = ''zero'', mn_recipe_title = ''Dish'',
            mn_nutrition = \<lparr> calories = 600, protein = 40, fat = 20, carbohydrates = 60,
                             fiber = Some 0 \<rparr>,
            calculation_method = spoonacular \<rparr>"
proof -
  have sm: "servingMultiplier_validator 2
     ((sample_recipe ''zero'')\<lparr> nutrition_info := Some (declared 300 20 10 30),
                               servings := 0 \<rparr>) = 2"
    by (simp add: servingMultiplier_validator_def or_one_def)
  have "isReliableNutrition_validator (declared 300 20 10 30)"
    by (simp add: isReliableNutrition_validator_def declared_def)
  from calculateMealNutrition_reliable [OF sample_store_found [OF zero_recipe] _ this, of 2 True]
  show ?thesis
    unfolding sm by (simp add: declared_def sample_recipe_def num_or_zero_def)
qed

text \<open>
  Claim C7. For every recipe with declared servings at most 0 and any requested serving
  count, the nutrient resolver treats the declared servings as 1 when it computes the
  serving multiplier, and returns well-defined totals.

  The code does that for declared servings 0 only. Its guard \<open>recipe.servings || 1\<close>
  replaces a falsy divisor, and a negative number is not falsy. Recipe \<open>minus\<close>
  declares -2 servings and 300 calories; for 2 requested servings the multiplier is
  2 / (-2) = -1, in the validator and in the council, and the validator returns -300
  calories where treating the servings as 1 gives 600.
\<close>

theorem C7_negative_servings_not_one:
  "servingMultiplier_validator 2
     ((sample_recipe ''minus'')\<lparr> nutrition_info := Some (declared 300 20 10 30),
                                servings := - 2 \<rparr>) = - 1 \<and>
   servingMultiplier_council
     \<lparr> slot_meal_type = ''dinner'', recipe_id = ''minus'', slot_servings = Some 2,
       completed = False \<rparr>
     ((sample_recipe ''minus'')\<lparr> nutrition_info := Some (declared 300 20 10 30),
                                servings := - 2 \<rparr>) = - 1 \<and>
   map_option (\<lambda>mn. calories (mn_nutrition mn))
     (calculateMealNutrition sample_store ''minus'' 2 True) = Some (- 300)"
proof -
  have sm: "servingMultiplier_validator 2
     ((sample_recipe ''minus'')\<lparr> nutrition_info := Some (declared 300 20 10 30),
                                servings := - 2 \<rparr>) = - 1"
    by (simp add: servingMultiplier_validator_def or_one_def)
  have sc: "servingMultiplier_council
     \<lparr> slot_meal_type = ''dinner'', recipe_id = ''minus'', slot_servings = Some 2,
       completed = False \<rparr>
     ((sample_recipe ''minus'')\<lparr> nutrition_info := Some (declared 300 20 10 30),
                                servings := - 2 \<rparr>) = - 1"
    by (simp add: servingMultiplier_council_def or_one_def)
  have "isReliableNutrition_validator (declared 300 20 10 30)"
    by (simp add: isReliableNutrition_validator_def declared_def)
  from calculateMealNutrition_reliable [OF sample_store_found [OF minus_recipe] _ this, of 2 True]
  show ?thesis
    unfolding sm sc by (simp add: declared_def)
qed

subsection \<open>Threshold\<close>

lemma fold_days_meals:
  "fold (\<lambda>d st. fold f (meals d) st) ds st = fold f (concat (map meals ds)) st"
  by (induction ds arbitrary: st) simp_all

lemma validate_loop_plan_meals:
  "validate_loop store options (days planData) =
     fold (meal_step store options) (plan_meals planData) validate_init"
  by (simp add: validate_loop_def plan_meals_def fold_days_meals)

lemma meal_step_resolved:
  "meal_nutrition store options meal = Some n \<Longrightarrow>
   totalNutrition (meal_step store options meal st) = add_nutrition (totalNutrition st) n \<and>
   missingData (meal_step store options meal st) = missingData st"
  by (auto simp: meal_nutrition_def meal_step_def split: option.splits)

lemma meal_step_unresolved:
  "meal_nutrition store options meal = None \<Longrightarrow>
   totalNutrition (meal_step store options meal st) = totalNutrition st \<and>
   missingData (meal_step store options meal st) =
     missingData st @ [''Recipe '' @ recipe_id meal]"
  by (auto simp: meal_nutrition_def meal_step_def split: option.splits)

lemma fold_meal_step:
  "calories (totalNutrition (fold (meal_step store options) ms st)) =
     calories (totalNutrition st) +
     sum_list (map calories (List.map_filter (meal_nutrition store options) ms)) \<and>
   protein (totalNutrition (fold (meal_step store options) ms st)) =
     protein (totalNutrition st) +
     sum_list (map protein (List.map_filter (meal_nutrition store options) ms)) \<and>
   fat (totalNutrition (fold (meal_step store options) ms st)) =
     fat (totalNutrition st) +
     sum_list (map fat (List.map_filter (meal_nutrition store options) ms)) \<and>
   carbohydrates (totalNutrition (fold (meal_step store options) ms st)) =
     carbohydrates (totalNutrition st) +
     sum_list (map carbohydrates (List.map_filter (meal_nutrition store options) ms)) \<and>
   missingData (fold (meal_step store options) ms st) =
     missingData st @
     map (\<lambda>meal. ''Recipe '' @ recipe_id meal)
       (filter (\<lambda>meal. meal_nutrition store options meal = None) ms)"
proof (induction ms arbitrary: st)
  case Nil
  show ?case by (simp add: map_filter_simps)
next
  case (Cons meal ms)
  show ?case
  proof (cases "meal_nutrition store options meal")
    case None
    from meal_step_unresolved [OF None, of st] Cons.IH [of "meal_step store options meal st"]
    show ?thesis using None by (simp add: map_filter_simps)
  next
    case (Some n)
    from meal_step_resolved [OF Some, of st] Cons.IH [of "meal_step store options meal st"]
    show ?thesis using Some by (simp add: map_filter_simps add_nutrition_def)
  qed
qed

lemma validate_loop_totals:
  "calories (totalNutrition (validate_loop store options (days planData))) =
     sum_list (map calories (resolved_nutrition store options planData))"
  "protein (totalNutrition (validate_loop store options (days planData))) =
     sum_list (map protein (resolved_nutrition store options planData))"
  "fat (totalNutrition (validate_loop store options (days planData))) =
     sum_list (map fat (resolved_nutrition store options planData))"
  "carbohydrates (totalNutrition (validate_loop store options (days planData))) =
     sum_list (map carbohydrates (resolved_nutrition store options planData))"
  "missingData (validate_loop store options (days planData)) =
     map (\<lambda>meal. ''Recipe '' @ recipe_id meal) (unresolved_meals store options planData)"
  using fold_meal_step [of store options "plan_meals planData" validate_init]
  by (simp_all add: validate_loop_plan_meals resolved_nutrition_def unresolved_meals_def
      validate_init_def)


lemma validatePlan_flags:
  "(within_threshold (validatePlan store planData targets options) \<longleftrightarrow>
      js_le (Math_abs (calories_deviation
        (target_deviations (validatePlan store planData targets options))))
        (deviation_threshold options) \<and>
      js_le (Math_abs (protein_deviation
        (target_deviations (validatePlan store planData targets options))))
        (deviation_threshold options) \<and>
      js_le (Math_abs (fat_deviation
        (target_deviations (validatePlan store planData targets options))))
        (deviation_threshold options) \<and>
      js_le (Math_abs (carbohydrates_deviation
        (target_deviations (validatePlan store planData targets options))))
        (deviation_threshold options)) \<and>
   (is_valid (validatePlan store planData targets options) \<longleftrightarrow>
      within_threshold (validatePlan store planData targets options) \<and>
      (unresolved_meals store options planData = [] \<or> \<not> require_all_recipes options)) \<and>
   missing_nutrition_data (validatePlan store planData targets options) =
     map (\<lambda>meal. ''Recipe '' @ recipe_id meal) (unresolved_meals store options planData)"
  by (auto simp: validatePlan_def Let_def validate_loop_totals(5))

lemma validatePlan_deviations:
  assumes "days planData \<noteq> []"
  shows "calories_deviation (target_deviations (validatePlan store planData targets options)) =
           Num (spec_deviation
                  (Math_round (sum_list (map calories (resolved_nutrition store options planData)) /
                               real (length (days planData))))
                  (daily_calories targets))"
    and "protein_deviation (target_deviations (validatePlan store planData targets options)) =
           Num (spec_deviation
                  (Math_round (sum_list (map protein (resolved_nutrition store options planData)) /
                               real (length (days planData)) * 10) / 10)
                  (daily_protein targets))"
    and "fat_deviation (target_deviations (validatePlan store planData targets options)) =
           Num (spec_deviation
                  (Math_round (sum_list (map fat (resolved_nutrition store options planData)) /
                               real (length (days planData)) * 10) / 10)
                  (daily_fat targets))"
    and "carbohydrates_deviation (target_deviations (validatePlan store planData targets options)) =
           Num (spec_deviation
                  (Math_round (sum_list (map carbohydrates
                                 (resolved_nutrition store options planData)) /
                               real (length (days planData)) * 10) / 10)
                  (daily_carbohydrates targets))"
  using assms
  by (simp_all add: validatePlan_def Let_def validate_loop_totals per_day_def
      calculateDeviation_def spec_deviation_def)

lemma validatePlan_no_days:
  assumes "days planData = []"
  shows "within_threshold (validatePlan store planData targets options) \<longleftrightarrow>
           0 \<le> deviation_threshold options \<and> daily_calories targets = 0 \<and>
           daily_protein targets = 0 \<and> daily_fat targets = 0 \<and>
           daily_carbohydrates targets = 0"
  using assms
  by (simp add: validatePlan_def Let_def per_day_def calculateDeviation_def)


lemma plan_loop_throws:
  "list_ex (\<lambda>meal. isl (recipe_by_id store (recipe_id meal))) ms \<Longrightarrow>
   \<exists>e. plan_loop store ms t = Inl e"
proof (induction ms arbitrary: t)
  case Nil
  then show ?case by simp
next
  case (Cons meal ms)
  show ?case
  proof (cases "recipe_by_id store (recipe_id meal)")
    case (Inl e)
    then show ?thesis by simp
  next
    case (Inr res)
    with Cons.prems have "list_ex (\<lambda>meal. isl (recipe_by_id store (recipe_id meal))) ms"
      by simp
    from Cons.IH [OF this] show ?thesis
      using Inr by (simp add: Let_def split: option.split)
  qed
qed

lemma plan_loop_sums:
  "\<not> list_ex (\<lambda>meal. isl (recipe_by_id store (recipe_id meal))) ms \<Longrightarrow>
   \<exists>t'. plan_loop store ms t = Inr t' \<and>
     totalCalories t' = totalCalories t +
       sum_list (map (\<lambda>(ni, k). calories ni * k) (List.map_filter (council_portion store) ms)) \<and>
     totalProtein t' = totalProtein t +
       sum_list (map (\<lambda>(ni, k). protein ni * k) (List.map_filter (council_portion store) ms)) \<and>
     totalFat t' = totalFat t +
       sum_list (map (\<lambda>(ni, k). fat ni * k) (List.map_filter (council_portion store) ms)) \<and>
     totalCarbs t' = totalCarbs t +
       sum_list (map (\<lambda>(ni, k). carbohydrates ni * k)
         (List.map_filter (council_portion store) ms))"
proof (induction ms arbitrary: t)
  case Nil
  show ?case by (simp add: map_filter_simps)
next
  case (Cons meal ms)
  from Cons.prems obtain res where res: "recipe_by_id store (recipe_id meal) = Inr res"
    and rest: "\<not> list_ex (\<lambda>meal. isl (recipe_by_id store (recipe_id meal))) ms"
    by (cases "recipe_by_id store (recipe_id meal)") auto
  show ?case
  proof (cases "council_portion store meal")
    case None
    then have "plan_loop store (meal # ms) t = plan_loop store ms t"
      using res by (simp add: council_portion_def split: option.splits)
    with Cons.IH [OF rest, of t] None show ?thesis
      by (simp add: map_filter_simps)
  next
    case (Some p)
    obtain ni k where p: "p = (ni, k)" by (cases p)
    from Some p obtain r where r: "found_recipe (Inr res) = Some r"
      and ni: "council_meal_nutrition store r = Some ni"
      and k: "k = servingMultiplier_council meal r"
      using res by (auto simp: council_portion_def split: option.splits)
    let ?t = "t\<lparr> totalCalories := totalCalories t + calories ni * k,
                  totalProtein := totalProtein t + protein ni * k,
                  totalFat := totalFat t + fat ni * k,
                  totalCarbs := totalCarbs t + carbohydrates ni * k \<rparr>"
    have step: "plan_loop store (meal # ms) t = plan_loop store ms ?t"
      using res r ni k by (simp add: Let_def)
    have portions: "List.map_filter (council_portion store) (meal # ms) =
        (ni, k) # List.map_filter (council_portion store) ms"
      using Some p by (simp add: map_filter_simps)
    from Cons.IH [OF rest, of ?t] obtain t' where run: "plan_loop store ms ?t = Inr t'"
      and c: "totalCalories t' = totalCalories ?t +
        sum_list (map (\<lambda>(ni, k). calories ni * k) (List.map_filter (council_portion store) ms))"
      and p': "totalProtein t' = totalProtein ?t +
        sum_list (map (\<lambda>(ni, k). protein ni * k) (List.map_filter (council_portion store) ms))"
      and f: "totalFat t' = totalFat ?t +
        sum_list (map (\<lambda>(ni, k). fat ni * k) (List.map_filter (council_portion store) ms))"
      and cb: "totalCarbs t' = totalCarbs ?t +
        sum_list (map (\<lambda>(ni, k). carbohydrates ni * k)
          (List.map_filter (council_portion store) ms))"
      by blast
    show ?thesis
      unfolding step portions run using c p' f cb by simp
  qed
qed

lemma calculatePlanNutrition_throws:
  "store_throws store planData \<Longrightarrow> calculatePlanNutrition store planData = None"
  using plan_loop_throws [of store "plan_meals planData" zero_totals]
  by (auto simp: store_throws_def calculatePlanNutrition_def plan_meals_def)

lemma calculatePlanNutrition_total:
  "\<not> store_throws store planData \<Longrightarrow>
   calculatePlanNutrition store planData =
     Some \<lparr> calories = council_total store planData calories,
            protein = council_total store planData protein,
            fat = council_total store planData fat,
            carbohydrates = council_total store planData carbohydrates,
            fiber = None \<rparr>"
  using plan_loop_sums [of store "plan_meals planData" zero_totals]
  by (auto simp: store_throws_def calculatePlanNutrition_def plan_meals_def council_total_def
      zero_totals_def)

lemma validateNutrition_throws:
  "store_throws store planData \<Longrightarrow>
   \<not> within_15_percent_threshold (validateNutrition store planData (Some targets)) \<and>
   \<not> cv_is_valid (validateNutrition store planData (Some targets)) \<and>
   cv_missing_nutrition_data (validateNutrition store planData (Some targets)) =
     [''Complete nutrition calculation failed'']"
  by (simp add: validateNutrition_def calculatePlanNutrition_throws)

lemma validateNutrition_flags:
  assumes "\<not> store_throws store planData"
  shows "(within_15_percent_threshold (validateNutrition store planData (Some targets)) \<longleftrightarrow>
      js_le (Math_abs (calories_deviation
        (cv_target_deviations (validateNutrition store planData (Some targets))))) 15 \<and>
      js_le (Math_abs (protein_deviation
        (cv_target_deviations (validateNutrition store planData (Some targets))))) 15 \<and>
      js_le (Math_abs (fat_deviation
        (cv_target_deviations (validateNutrition store planData (Some targets))))) 15 \<and>
      js_le (Math_abs (carbohydrates_deviation
        (cv_target_deviations (validateNutrition store planData (Some targets))))) 15) \<and>
   (cv_is_valid (validateNutrition store planData (Some targets)) \<longleftrightarrow>
      within_15_percent_threshold (validateNutrition store planData (Some targets))) \<and>
   cv_missing_nutrition_data (validateNutrition store planData (Some targets)) = []"
  by (simp add: validateNutrition_def calculatePlanNutrition_total [OF assms] Let_def)

lemma validateNutrition_deviations:
  assumes "\<not> store_throws store planData" and "days planData \<noteq> []"
  shows "cv_target_deviations (validateNutrition store planData (Some targets)) =
     \<lparr> calories_deviation =
         Num (spec_deviation
                (Math_round (council_total store planData calories /
                             real (length (days planData))))
                (daily_calories targets)),
       protein_deviation =
         Num (spec_deviation
                (Math_round (council_total store planData protein /
                             real (length (days planData)) * 10) / 10)
                (daily_protein targets)),
       fat_deviation =
         Num (spec_deviation
                (Math_round (council_total store planData fat /
                             real (length (days planData)) * 10) / 10)
                (daily_fat targets)),
       carbohydrates_deviation =
         Num (spec_deviation
                (Math_round (council_total store planData carbohydrates /
                             real (length (days planData)) * 10) / 10)
                (daily_carbohydrates targets)) \<rparr>"
  using assms(2)
  by (simp add: validateNutrition_def calculatePlanNutrition_total [OF assms(1)] Let_def
      calculateDailyAverage_def per_day_def calculateDeviation_def spec_deviation_def)

lemma validateNutrition_no_days:
  assumes "days planData = []"
  shows "within_15_percent_threshold (validateNutrition store planData (Some targets)) \<longleftrightarrow>
           daily_calories targets = 0 \<and> daily_protein targets = 0 \<and>
           daily_fat targets = 0 \<and> daily_carbohydrates targets = 0"
proof -
  have "\<not> store_throws store planData"
    using assms by (simp add: store_throws_def plan_meals_def)
  from calculatePlanNutrition_total [OF this] show ?thesis
    using assms
    by (simp add: validateNutrition_def Let_def calculateDailyAverage_def per_day_def
        calculateDeviation_def)
qed

lemma validateNutrition_no_targets:
  "\<not> within_15_percent_threshold (validateNutrition store planData None) \<and>
   \<not> cv_is_valid (validateNutrition store planData None)"
  by (simp add: validateNutrition_def split: option.split)


lemma validatePlan_threshold:
  "(let r = validatePlan store planData targets options;
        n = length (days planData);
        ns = resolved_nutrition store options planData;
        th = deviation_threshold options;
        dc = spec_deviation (spec_calories_average (sum_list (map calories ns)) n)
               (daily_calories targets);
        dp = spec_deviation (spec_grams_average (sum_list (map protein ns)) n)
               (daily_protein targets);
        df = spec_deviation (spec_grams_average (sum_list (map fat ns)) n)
               (daily_fat targets);
        dcb = spec_deviation (spec_grams_average (sum_list (map carbohydrates ns)) n)
                (daily_carbohydrates targets)
    in (days planData \<noteq> [] \<longrightarrow>
          calories_deviation (target_deviations r) = Num dc \<and>
          protein_deviation (target_deviations r) = Num dp \<and>
          fat_deviation (target_deviations r) = Num df \<and>
          carbohydrates_deviation (target_deviations r) = Num dcb \<and>
          (within_threshold r \<longleftrightarrow> \<bar>dc\<bar> \<le> th \<and> \<bar>dp\<bar> \<le> th \<and> \<bar>df\<bar> \<le> th \<and> \<bar>dcb\<bar> \<le> th)) \<and>
       (days planData = [] \<longrightarrow>
          (within_threshold r \<longleftrightarrow>
             0 \<le> th \<and> daily_calories targets = 0 \<and> daily_protein targets = 0 \<and>
             daily_fat targets = 0 \<and> daily_carbohydrates targets = 0)) \<and>
       missing_nutrition_data r =
         map (\<lambda>meal. ''Recipe '' @ recipe_id meal) (unresolved_meals store options planData) \<and>
       (is_valid r \<longleftrightarrow>
          within_threshold r \<and>
          (unresolved_meals store options planData = [] \<or> \<not> require_all_recipes options)))"
proof -
  have v1: "calories_deviation (target_deviations (validatePlan store planData targets options)) =
        Num (spec_deviation (spec_calories_average
               (sum_list (map calories (resolved_nutrition store options planData)))
               (length (days planData))) (daily_calories targets)) \<and>
      protein_deviation (target_deviations (validatePlan store planData targets options)) =
        Num (spec_deviation (spec_grams_average
               (sum_list (map protein (resolved_nutrition store options planData)))
               (length (days planData))) (daily_protein targets)) \<and>
      fat_deviation (target_deviations (validatePlan store planData targets options)) =
        Num (spec_deviation (spec_grams_average
               (sum_list (map fat (resolved_nutrition store options planData)))
               (length (days planData))) (daily_fat targets)) \<and>
      carbohydrates_deviation (target_deviations (validatePlan store planData targets options)) =
        Num (spec_deviation (spec_grams_average
               (sum_list (map carbohydrates (resolved_nutrition store options planData)))
               (length (days planData))) (daily_carbohydrates targets))"
    if "days planData \<noteq> []"
    using validatePlan_deviations [OF that, of store targets options]
    by (simp add: spec_calories_average_def spec_grams_average_def)
  have v2: "within_threshold (validatePlan store planData targets options) \<longleftrightarrow>
      \<bar>spec_deviation (spec_calories_average
               (sum_list (map calories (resolved_nutrition store options planData)))
               (length (days planData))) (daily_calories targets)\<bar> \<le> deviation_threshold options \<and>
      \<bar>spec_deviation (spec_grams_average
               (sum_list (map protein (resolved_nutrition store options planData)))
               (length (days planData))) (daily_protein targets)\<bar> \<le> deviation_threshold options \<and>
      \<bar>spec_deviation (spec_grams_average
               (sum_list (map fat (resolved_nutrition store options planData)))
               (length (days planData))) (daily_fat targets)\<bar> \<le> deviation_threshold options \<and>
      \<bar>spec_deviation (spec_grams_average
               (sum_list (map carbohydrates (resolved_nutrition store options planData)))
               (length (days planData))) (daily_carbohydrates targets)\<bar> \<le> deviation_threshold options"
    if "days planData \<noteq> []"
    using validatePlan_flags [of store planData targets options] v1 [OF that] by simp
  show ?thesis
    unfolding Let_def
    using v1 v2 validatePlan_flags [of store planData targets options]
      validatePlan_no_days [of planData store targets options]
    by blast
qed

lemma validateNutrition_threshold:
  "(let c = validateNutrition store planData (Some targets);
        n = length (days planData);
        dc = spec_deviation (spec_calories_average (council_total store planData calories) n)
               (daily_calories targets);
        dp = spec_deviation (spec_grams_average (council_total store planData protein) n)
               (daily_protein targets);
        df = spec_deviation (spec_grams_average (council_total store planData fat) n)
               (daily_fat targets);
        dcb = spec_deviation (spec_grams_average (council_total store planData carbohydrates) n)
                (daily_carbohydrates targets)
    in (store_throws store planData \<longrightarrow>
          \<not> within_15_percent_threshold c \<and> \<not> cv_is_valid c \<and>
          cv_missing_nutrition_data c = [''Complete nutrition calculation failed'']) \<and>
       (\<not> store_throws store planData \<longrightarrow>
          (days planData \<noteq> [] \<longrightarrow>
             cv_target_deviations c =
               \<lparr> calories_deviation = Num dc, protein_deviation = Num dp,
                 fat_deviation = Num df, carbohydrates_deviation = Num dcb \<rparr> \<and>
             (within_15_percent_threshold c \<longleftrightarrow>
                \<bar>dc\<bar> \<le> 15 \<and> \<bar>dp\<bar> \<le> 15 \<and> \<bar>df\<bar> \<le> 15 \<and> \<bar>dcb\<bar> \<le> 15)) \<and>
          (days planData = [] \<longrightarrow>
             (within_15_percent_threshold c \<longleftrightarrow>
                daily_calories targets = 0 \<and> daily_protein targets = 0 \<and>
                daily_fat targets = 0 \<and> daily_carbohydrates targets = 0)) \<and>
          cv_missing_nutrition_data c = [] \<and>
          (cv_is_valid c \<longleftrightarrow> within_15_percent_threshold c)))"
proof -
  have c1: "cv_target_deviations (validateNutrition store planData (Some targets)) =
       \<lparr> calories_deviation = Num (spec_deviation (spec_calories_average
             (council_total store planData calories) (length (days planData)))
             (daily_calories targets)),
         protein_deviation = Num (spec_deviation (spec_grams_average
             (council_total store planData protein) (length (days planData)))
             (daily_protein targets)),
         fat_deviation = Num (spec_deviation (spec_grams_average
             (council_total store planData fat) (length (days planData)))
             (daily_fat targets)),
         carbohydrates_deviation = Num (spec_deviation (spec_grams_average
             (council_total store planData carbohydrates) (length (days planData)))
             (daily_carbohydrates targets)) \<rparr>"
    if "\<not> store_throws store planData" "days planData \<noteq> []"
    using validateNutrition_deviations [OF that, of targets]
    by (simp add: spec_calories_average_def spec_grams_average_def)
  have c2: "within_15_percent_threshold (validateNutrition store planData (Some targets)) \<longleftrightarrow>
       \<bar>spec_deviation (spec_calories_average
             (council_total store planData calories) (length (days planData)))
             (daily_calories targets)\<bar> \<le> 15 \<and>
       \<bar>spec_deviation (spec_grams_average
             (council_total store planData protein) (length (days planData)))
             (daily_protein targets)\<bar> \<le> 15 \<and>
       \<bar>spec_deviation (spec_grams_average
             (council_total store planData fat) (length (days planData)))
             (daily_fat targets)\<bar> \<le> 15 \<and>
       \<bar>spec_deviation (spec_grams_average
             (council_total store planData carbohydrates) (length (days planData)))
             (daily_carbohydrates targets)\<bar> \<le> 15"
    if "\<not> store_throws store planData" "days planData \<noteq> []"
    using validateNutrition_flags [OF that(1), of targets] c1 [OF that] by simp
  show ?thesis
    unfolding Let_def
    using c1 c2 validateNutrition_throws [of store planData targets]
      validateNutrition_flags [of store planData targets]
      validateNutrition_no_days [of planData store targets]
    by blast
qed

text \<open>
  Claim C2. For every plan and set of targets, within\_threshold is true if and only
  if each of the four core deviations (calories, protein, fat, carbohydrates) has
  absolute value at most the threshold (the configured one in the validator, 15 by
  default; the fixed 15 in the council), the boundary included; and is\_valid is
  within\_threshold and (no missing nutrition data, or missing data tolerated because
  require\_all\_recipes is off).

  The deviations are those of the plan against the targets. In the validator the total
  of a nutrient is the sum, over the meal slots of all days, of what
  \<open>calculateMealNutrition\<close> resolves for the slot; the meal slots it does not resolve are
  the missing data. In the council the total is the rounded sum of nutrition times
  serving multiplier over the slots whose recipe is found and resolved, a slot that is
  not resolved is passed over without a report, and an exception of the store fails
  the whole calculation. In both, the daily average is the total divided by the number
  of days (calories rounded to the integer, grams to one decimal) and the deviation is
  (average - target) / target * 100, or 0 for a target of 0. A plan without days has
  no average, and is within the threshold only when all four targets are 0. Numbers
  are exact reals.
\<close>

theorem C2_within_threshold:
  "(let r = validatePlan store planData targets options;
        n = length (days planData);
        ns = resolved_nutrition store options planData;
        th = deviation_threshold options;
        dc = spec_deviation (spec_calories_average (sum_list (map calories ns)) n)
               (daily_calories targets);
        dp = spec_deviation (spec_grams_average (sum_list (map protein ns)) n)
               (daily_protein targets);
        df = spec_deviation (spec_grams_average (sum_list (map fat ns)) n)
               (daily_fat targets);
        dcb = spec_deviation (spec_grams_average (sum_list (map carbohydrates ns)) n)
                (daily_carbohydrates targets)
    in (days planData \<noteq> [] \<longrightarrow>
          calories_deviation (target_deviations r) = Num dc \<and>
          protein_deviation (target_deviations r) = Num dp \<and>
          fat_deviation (target_deviations r) = Num df \<and>
          carbohydrates_deviation (target_deviations r) = Num dcb \<and>
          (within_threshold r \<longleftrightarrow> \<bar>dc\<bar> \<le> th \<and> \<bar>dp\<bar> \<le> th \<and> \<bar>df\<bar> \<le> th \<and> \<bar>dcb\<bar> \<le> th)) \<and>
       (days planData = [] \<longrightarrow>
          (within_threshold r \<longleftrightarrow>
             0 \<le> th \<and> daily_calories targets = 0 \<and> daily_protein targets = 0 \<and>
             daily_fat targets = 0 \<and> daily_carbohydrates targets = 0)) \<and>
       missing_nutrition_data r =
         map (\<lambda>meal. ''Recipe '' @ recipe_id meal) (unresolved_meals store options planData) \<and>
       (is_valid r \<longleftrightarrow>
          within_threshold r \<and>
          (unresolved_meals store options planData = [] \<or> \<not> require_all_recipes options))) \<and>
   (let c = validateNutrition store planData (Some targets);
        n = length (days planData);
        dc = spec_deviation (spec_calories_average (council_total store planData calories) n)
               (daily_calories targets);
        dp = spec_deviation (spec_grams_average (council_total store planData protein) n)
               (daily_protein targets);
        df = spec_deviation (spec_grams_average (council_total store planData fat) n)
               (daily_fat targets);
        dcb = spec_deviation (spec_grams_average (council_total store planData carbohydrates) n)
                (daily_carbohydrates targets)
    in (store_throws store planData \<longrightarrow>
          \<not> within_15_percent_threshold c \<and> \<not> cv_is_valid c \<and>
          cv_missing_nutrition_data c = [''Complete nutrition calculation failed'']) \<and>
       (\<not> store_throws store planData \<longrightarrow>
          (days planData \<noteq> [] \<longrightarrow>
             cv_target_deviations c =
               \<lparr> calories_deviation = Num dc, protein_deviation = Num dp,
                 fat_deviation = Num df, carbohydrates_deviation = Num dcb \<rparr> \<and>
             (within_15_percent_threshold c \<longleftrightarrow>
                \<bar>dc\<bar> \<le> 15 \<and> \<bar>dp\<bar> \<le> 15 \<and> \<bar>df\<bar> \<le> 15 \<and> \<bar>dcb\<bar> \<le> 15)) \<and>
          (days planData = [] \<longrightarrow>
             (within_15_percent_threshold c \<longleftrightarrow>
                daily_calories targets = 0 \<and> daily_protein targets = 0 \<and>
                daily_fat targets = 0 \<and> daily_carbohydrates targets = 0)) \<and>
          cv_missing_nutrition_data c = [] \<and>
          (cv_is_valid c \<longleftrightarrow> within_15_percent_threshold c)))"
  by (rule conjI [OF validatePlan_threshold validateNutrition_threshold])

lemma resolved_one_meal:
  "0 \<le> p \<Longrightarrow>
   resolved_nutrition (shortfall_store p) default_options one_meal_plan =
     [\<lparr> calories = 850, protein = Math_round (p * 10) / 10, fat = 850, carbohydrates = 850,
        fiber = Some 0 \<rparr>] \<and>
   unresolved_meals (shortfall_store p) default_options one_meal_plan = []"
  by (simp add: resolved_nutrition_def unresolved_meals_def plan_meals_def one_meal_plan_def
      map_filter_simps meal_nutrition_def calculateMealNutrition_def found_recipe_def
      shortfall_store_def resolve_nutrition_def isReliableNutrition_validator_def declared_def
      sample_recipe_def servingMultiplier_validator_def or_one_def num_or_zero_def
      default_options_def Let_def)

lemma resolved_boundary:
  "0 \<le> p \<Longrightarrow>
   resolved_nutrition (boundary_store p) default_options one_meal_plan =
     [\<lparr> calories = 1150, protein = Math_round (p * 10) / 10, fat = 1150,
        carbohydrates = 1150, fiber = Some 0 \<rparr>] \<and>
   unresolved_meals (boundary_store p) default_options one_meal_plan = []"
  by (simp add: resolved_nutrition_def unresolved_meals_def plan_meals_def one_meal_plan_def
      map_filter_simps meal_nutrition_def calculateMealNutrition_def found_recipe_def
      boundary_store_def resolve_nutrition_def isReliableNutrition_validator_def declared_def
      sample_recipe_def servingMultiplier_validator_def or_one_def num_or_zero_def
      default_options_def Let_def)

lemma resolved_two_meal:
  "use_usda_fallback options \<Longrightarrow>
   resolved_nutrition (shortfall_store 850) options two_meal_plan =
     [\<lparr> calories = 850, protein = 850, fat = 850, carbohydrates = 850, fiber = Some 0 \<rparr>] \<and>
   unresolved_meals (shortfall_store 850) options two_meal_plan =
     [\<lparr> slot_meal_type = ''dinner'', recipe_id = ''missing'', slot_servings = Some 1,
        completed = False \<rparr>]"
  by (simp add: resolved_nutrition_def unresolved_meals_def plan_meals_def two_meal_plan_def
      map_filter_simps meal_nutrition_def calculateMealNutrition_def found_recipe_def
      shortfall_store_def resolve_nutrition_def isReliableNutrition_validator_def declared_def
      sample_recipe_def servingMultiplier_validator_def or_one_def num_or_zero_def Let_def)

lemma council_total_shortfall:
  "0 \<le> p \<Longrightarrow>
   \<not> store_throws (shortfall_store p) two_meal_plan \<and>
   council_total (shortfall_store p) two_meal_plan calories = 850 \<and>
   council_total (shortfall_store p) two_meal_plan protein = Math_round p \<and>
   council_total (shortfall_store p) two_meal_plan fat = 850 \<and>
   council_total (shortfall_store p) two_meal_plan carbohydrates = 850"
  by (simp add: store_throws_def council_total_def plan_meals_def two_meal_plan_def
      map_filter_simps council_portion_def found_recipe_def shortfall_store_def
      council_meal_nutrition_def isReliableNutrition_council_def declared_def
      sample_recipe_def servingMultiplier_council_def or_one_def)

theorem C2_within_threshold_witness:
  "calories_deviation (target_deviations
     (validatePlan (shortfall_store 850) one_meal_plan targets_1000 default_options)) =
     Num (- 15) \<and>
   within_threshold
     (validatePlan (shortfall_store 850) one_meal_plan targets_1000 default_options) \<and>
   is_valid (validatePlan (shortfall_store 850) one_meal_plan targets_1000 default_options) \<and>
   \<not> within_threshold
       (validatePlan (shortfall_store 849) one_meal_plan targets_1000 default_options) \<and>
   within_threshold
     (validatePlan (boundary_store 1150) one_meal_plan targets_1000 default_options) \<and>
   \<not> within_threshold
       (validatePlan (boundary_store 1150.1) one_meal_plan targets_1000 default_options) \<and>
   missing_nutrition_data
     (validatePlan (shortfall_store 850) two_meal_plan targets_1000 default_options) =
     [''Recipe missing''] \<and>
   within_threshold
     (validatePlan (shortfall_store 850) two_meal_plan targets_1000 default_options) \<and>
   \<not> is_valid (validatePlan (shortfall_store 850) two_meal_plan targets_1000 default_options) \<and>
   is_valid (validatePlan (shortfall_store 850) two_meal_plan targets_1000 lenient_options) \<and>
   \<not> within_threshold
       (validatePlan (shortfall_store 850) empty_plan targets_1000 default_options) \<and>
   within_15_percent_threshold
     (validateNutrition (shortfall_store 850) two_meal_plan (Some targets_1000)) \<and>
   cv_is_valid (validateNutrition (shortfall_store 850) two_meal_plan (Some targets_1000)) \<and>
   cv_missing_nutrition_data
     (validateNutrition (shortfall_store 850) two_meal_plan (Some targets_1000)) = [] \<and>
   \<not> within_15_percent_threshold
       (validateNutrition (shortfall_store 849) two_meal_plan (Some targets_1000)) \<and>
   \<not> cv_is_valid (validateNutrition (shortfall_store 850) throwing_plan (Some targets_1000)) \<and>
   cv_missing_nutrition_data
     (validateNutrition (shortfall_store 850) throwing_plan (Some targets_1000)) =
     [''Complete nutrition calculation failed'']"
proof -
  have days: "days one_meal_plan \<noteq> []" "days two_meal_plan \<noteq> []" "days empty_plan = []"
    "length (days one_meal_plan) = 1" "length (days two_meal_plan) = 1"
    by (simp_all add: one_meal_plan_def two_meal_plan_def empty_plan_def)
  have opts: "deviation_threshold default_options = 15" "require_all_recipes default_options"
    "use_usda_fallback default_options" "use_usda_fallback lenient_options"
    "deviation_threshold lenient_options = 15" "\<not> require_all_recipes lenient_options"
    by (simp_all add: default_options_def lenient_options_def)
  have tg: "daily_calories targets_1000 = 1000" "daily_protein targets_1000 = 1000"
    "daily_fat targets_1000 = 1000" "daily_carbohydrates targets_1000 = 1000"
    by (simp_all add: targets_1000_def)
  have avg: "spec_calories_average 850 (Suc 0) = 850" "spec_grams_average 850 (Suc 0) = 850"
    "spec_grams_average 849 (Suc 0) = 849" "spec_deviation 850 1000 = - 15"
    "spec_deviation 849 1000 = - 15.1"
    by (simp_all add: spec_calories_average_def spec_grams_average_def spec_deviation_def)
  have throws: "store_throws (shortfall_store 850) throwing_plan"
    by (simp add: store_throws_def plan_meals_def throwing_plan_def shortfall_store_def)
  have a: "calories_deviation (target_deviations
       (validatePlan (shortfall_store 850) one_meal_plan targets_1000 default_options)) =
       Num (- 15) \<and>
     within_threshold
       (validatePlan (shortfall_store 850) one_meal_plan targets_1000 default_options) \<and>
     is_valid (validatePlan (shortfall_store 850) one_meal_plan targets_1000 default_options)"
    using C2_within_threshold [of "shortfall_store 850" one_meal_plan targets_1000 default_options]
      resolved_one_meal [of 850]
    by (simp add: Let_def days opts tg avg)
  have b: "\<not> within_threshold
       (validatePlan (shortfall_store 849) one_meal_plan targets_1000 default_options)"
    using C2_within_threshold [of "shortfall_store 849" one_meal_plan targets_1000 default_options]
      resolved_one_meal [of 849]
    by (simp add: Let_def days opts tg avg)
  have r1: "Math_round (11501 / 10 * 10) = 11501"
    by simp
  have up: "spec_calories_average 1150 (Suc 0) = 1150" "spec_grams_average 1150 (Suc 0) = 1150"
    "spec_grams_average (11501 / 10) (Suc 0) = 11501 / 10" "spec_deviation 1150 1000 = 15"
    "spec_deviation (11501 / 10) 1000 = 15.01"
    using r1 by (simp_all add: spec_calories_average_def spec_grams_average_def spec_deviation_def)
  have b1: "within_threshold
       (validatePlan (boundary_store 1150) one_meal_plan targets_1000 default_options)"
    using C2_within_threshold [of "boundary_store 1150" one_meal_plan targets_1000 default_options]
      resolved_boundary [of 1150]
    by (simp add: Let_def days opts tg up)
  have b2: "\<not> within_threshold
       (validatePlan (boundary_store 1150.1) one_meal_plan targets_1000 default_options)"
    using C2_within_threshold [of "boundary_store 1150.1" one_meal_plan targets_1000 default_options]
      resolved_boundary [of "1150.1"] r1
    by (simp add: Let_def days opts tg up)
  have c: "missing_nutrition_data
       (validatePlan (shortfall_store 850) two_meal_plan targets_1000 default_options) =
       [''Recipe missing''] \<and>
     within_threshold
       (validatePlan (shortfall_store 850) two_meal_plan targets_1000 default_options) \<and>
     \<not> is_valid (validatePlan (shortfall_store 850) two_meal_plan targets_1000 default_options)"
    using C2_within_threshold [of "shortfall_store 850" two_meal_plan targets_1000 default_options]
      resolved_two_meal [of default_options]
    by (simp add: Let_def days opts tg avg)
  have d: "is_valid (validatePlan (shortfall_store 850) two_meal_plan targets_1000 lenient_options)"
    using C2_within_threshold [of "shortfall_store 850" two_meal_plan targets_1000 lenient_options]
      resolved_two_meal [of lenient_options]
    by (simp add: Let_def days opts tg avg)
  have e: "\<not> within_threshold
       (validatePlan (shortfall_store 850) empty_plan targets_1000 default_options)"
    using C2_within_threshold [of "shortfall_store 850" empty_plan targets_1000 default_options]
    by (simp add: Let_def days tg)
  have f: "within_15_percent_threshold
       (validateNutrition (shortfall_store 850) two_meal_plan (Some targets_1000)) \<and>
     cv_is_valid (validateNutrition (shortfall_store 850) two_meal_plan (Some targets_1000)) \<and>
     cv_missing_nutrition_data
       (validateNutrition (shortfall_store 850) two_meal_plan (Some targets_1000)) = []"
    using C2_within_threshold [of "shortfall_store 850" two_meal_plan targets_1000 default_options]
      council_total_shortfall [of 850]
    by (simp add: Let_def days tg avg)
  have g: "\<not> within_15_percent_threshold
       (validateNutrition (shortfall_store 849) two_meal_plan (Some targets_1000))"
    using C2_within_threshold [of "shortfall_store 849" two_meal_plan targets_1000 default_options]
      council_total_shortfall [of 849]
    by (simp add: Let_def days tg avg)
  have h: "\<not> cv_is_valid
       (validateNutrition (shortfall_store 850) throwing_plan (Some targets_1000)) \<and>
     cv_missing_nutrition_data
       (validateNutrition (shortfall_store 850) throwing_plan (Some targets_1000)) =
       [''Complete nutrition calculation failed'']"
    using C2_within_threshold [of "shortfall_store 850" throwing_plan targets_1000 default_options]
      throws
    by (simp add: Let_def)
  from a b b1 b2 c d e f g h show ?thesis
    by blast
qed

subsection \<open>Coherence response\<close>

text \<open>What does hold: without a brace-delimited text, with a text that \<open>JSON.parse\<close>
  rejects, or with a parsed value whose \<open>rating\<close> is absent or falsy, the parsed rating
  is 0, and a rating of 0 is never accepted.\<close>

lemma parseCoherenceResponse_no_match:
  "regex_match_braces response = None \<Longrightarrow>
   cp_rating (parseCoherenceResponse JSON_parse response) = JNumber 0"
  by (simp add: parseCoherenceResponse_def parse_failed_def)

lemma parseCoherenceResponse_rejected:
  "regex_match_braces response = Some m \<Longrightarrow> JSON_parse m = Inl e \<Longrightarrow>
   cp_rating (parseCoherenceResponse JSON_parse response) = JNumber 0"
  by (simp add: parseCoherenceResponse_def parse_failed_def)

lemma parseCoherenceResponse_no_rating:
  assumes "regex_match_braces response = Some m" and "JSON_parse m = Inr parsed"
    and "case json_field parsed ''rating'' of
           Inl e \<Rightarrow> True | Inr None \<Rightarrow> True | Inr (Some v) \<Rightarrow> \<not> js_truthy v"
  shows "cp_rating (parseCoherenceResponse JSON_parse response) = JNumber 0"
proof (cases "json_field parsed ''rating''")
  case (Inl e)
  with assms(1,2) show ?thesis
    by (simp add: parseCoherenceResponse_def parse_failed_def)
next
  case (Inr r)
  then have r: "or_default r (JNumber 0) = JNumber 0"
    using assms(3) by (cases r) (simp_all add: or_default_def)
  show ?thesis
  proof (cases "json_field parsed ''feedback''")
    case (Inl e)
    with assms(1,2) Inr show ?thesis
      by (simp add: parseCoherenceResponse_def parse_failed_def)
  next
    case f: (Inr f)
    with assms(1,2) Inr r show ?thesis
      by (simp add: parseCoherenceResponse_def)
  qed
qed

lemma rating_zero_not_accepted:
  "co_rating c = JNumber 0 \<Longrightarrow> \<not> coherence_accepts S c"
  by (simp add: coherence_accepts_def)

lemma numeric_rating_accepted_iff:
  "co_rating c = JNumber n \<Longrightarrow> coherence_accepts S c \<longleftrightarrow> co_success c \<and> n \<ge> 7"
  by (simp add: coherence_accepts_def)

lemma regex_match_string_rating:
  "regex_match_braces string_rating_response = Some string_rating_response"
  by (simp add: regex_match_braces_def string_rating_response_def)

lemma council_nutrition_boundary:
  "cv_is_valid (validateNutrition (boundary_store 1150) one_meal_plan (Some targets_1000))"
  by (simp add: validateNutrition_def calculatePlanNutrition_def one_meal_plan_def
      boundary_store_def found_recipe_def council_meal_nutrition_def
      isReliableNutrition_council_def declared_def servingMultiplier_council_def or_one_def
      sample_recipe_def zero_totals_def calculateDailyAverage_def per_day_def
      calculateDeviation_def targets_1000_def Let_def)

text \<open>
  Claim C10. A coherence response without a parseable JSON object that has a numeric
  rating gives the rating 0, and no validation pass with such a response accepts the
  plan.

  The code misses the case of a rating that is present, truthy and not a number:
  \<open>parsed.rating || 0\<close> passes it on unchanged, and \<open>rating >= 7\<close> converts it. For the
  response \<open>{"rating": "9", "feedback": "Good variety"}\<close> the parsed rating is the string
  \<open>9\<close>, not 0, and the first validation pass accepts the plan.
\<close>

theorem C10_string_rating_accepted:
  "cp_rating (parseCoherenceResponse string_rating_parse string_rating_response) = JString ''9'' \<and>
   cr_success (validateAndRefine string_rating_world) \<and>
   cr_meal_plan (validateAndRefine string_rating_world) = Some one_meal_MealPlan \<and>
   claude_requests (validateAndRefine string_rating_world) = Some 2"
proof -
  have p: "parseCoherenceResponse string_rating_parse string_rating_response =
             \<lparr> cp_rating = JString ''9'', cp_feedback = JString ''Good variety'' \<rparr>"
    unfolding parseCoherenceResponse_def regex_match_string_rating
    by (simp add: string_rating_parse_def or_default_def)
  have acc: "coherence_accepts digit_nine
               (validateCoherence string_rating_parse
                  (FetchOk string_rating_response (Some 100) (Some 20)))"
    by (simp add: coherence_accepts_def validateCoherence_def p digit_nine_def)
  have "validateAndRefine string_rating_world =
          \<lparr> claude_requests = Some 2,
            tokens_used = Some (500 + or_zero (co_tokens_used (validateCoherence string_rating_parse
                  (FetchOk string_rating_response (Some 100) (Some 20))))),
            cost_cents = Some (1 + or_zero (co_cost_cents (validateCoherence string_rating_parse
                  (FetchOk string_rating_response (Some 100) (Some 20))))),
            cr_success = True, cr_meal_plan = Some one_meal_MealPlan,
            cr_nutritional_accuracy = Some (cv_target_deviations
              (validateNutrition (boundary_store 1150) one_meal_plan (Some targets_1000))),
            cr_error = None \<rparr>"
    unfolding validateAndRefine_def
    by (subst council_loop.simps)
       (simp add: string_rating_world_def maxRetries_def council_nutrition_boundary acc
          one_meal_MealPlan_def or_zero_def Let_def)
  with p show ?thesis by simp
qed

end
